theory Spec2Isabelle
  imports Main "HOL-Library.Monad_Syntax"
begin

section \<open>Go library functions used by the resources\<close>

text \<open>
  Go strings are byte sequences; \<^typ>\<open>string\<close> is a list of bytes as well.
  \<open>strings.Split(s, sep)\<close> is only ever called with a one-byte separator
  (\<open>"|"\<close> and \<open>","\<close>), so the separator is a \<^typ>\<open>char\<close>. It returns one more
  segment than there are separators in \<open>s\<close>; on the empty string it returns one
  empty segment.
\<close>

fun strings_Split :: "string \<Rightarrow> char \<Rightarrow> string list" where
  "strings_Split [] sep = [[]]"
| "strings_Split (c # cs) sep =
     (if c = sep then [] # strings_Split cs sep
      else (case strings_Split cs sep of
              [] \<Rightarrow> [[c]]
            | seg # segs \<Rightarrow> (c # seg) # segs))"

text \<open>\<open>strings.Join(elems, sep)\<close>.\<close>

fun strings_Join :: "string list \<Rightarrow> string \<Rightarrow> string" where
  "strings_Join [] sep = []"
| "strings_Join [x] sep = x"
| "strings_Join (x # y # ys) sep = x @ sep @ strings_Join (y # ys) sep"

text \<open>\<open>strconv.FormatBool\<close>.\<close>

definition FormatBool :: "bool \<Rightarrow> string" where
  "FormatBool b = (if b then ''true'' else ''false'')"

text \<open>\<open>slices.Contains\<close>.\<close>

definition slices_Contains :: "string list \<Rightarrow> string \<Rightarrow> bool" where
  "slices_Contains xs x = (x \<in> set xs)"

text \<open>
  A slice index expression \<open>parts[i]\<close>: Go panics with "index out of range" when
  \<open>i\<close> is not below the length. \<open>None\<close> is that panic.
\<close>

definition index :: "'a list \<Rightarrow> nat \<Rightarrow> 'a option" where
  "index xs i = (if i < length xs then Some (xs ! i) else None)"

section \<open>The resource identifier of grant\_privileges\_to\_database\_role\<close>

text \<open>
  The struct \<open>GrantPrivilegesToDatabaseRoleID\<close>, field by field. The field
  \<open>All\<close> of the source is \<open>AllFlag\<close> here (\<open>All\<close> is the universal quantifier
  of HOL).
\<close>

record GrantPrivilegesToDatabaseRoleID =
  RoleName :: string
  DatabaseName :: string
  Privileges :: "string list"
  AllPrivileges :: bool
  WithGrantOption :: bool
  OnDatabase :: bool
  OnSchema :: bool
  OnSchemaObject :: bool
  AllFlag :: bool
  Future :: bool
  ObjectType :: string
  ObjectName :: string
  ObjectTypePlural :: string
  InSchema :: bool
  SchemaName :: string
  InDatabase :: bool

text \<open>The zero value \<open>GrantPrivilegesToDatabaseRoleID{}\<close>.\<close>

definition emptyID :: GrantPrivilegesToDatabaseRoleID where
  "emptyID =
     \<lparr>RoleName = [], DatabaseName = [], Privileges = [], AllPrivileges = False,
      WithGrantOption = False, OnDatabase = False, OnSchema = False,
      OnSchemaObject = False, AllFlag = False, Future = False, ObjectType = [],
      ObjectName = [], ObjectTypePlural = [], InSchema = False, SchemaName = [],
      InDatabase = False\<rparr>"

text \<open>
  The decoder \<open>NewGrantPrivilegesToDatabaseRoleID\<close>. The accesses to \<open>parts\<close>
  are in the order the source evaluates them: \<open>parts[2]\<close> first, then the fields
  of the struct literal from top to bottom. The literal has no \<open>InDatabase\<close>
  entry, so that field keeps its zero value. \<open>privileges[0]\<close> is read only
  behind \<open>len(privileges) == 1\<close>.
\<close>

definition NewGrantPrivilegesToDatabaseRoleID ::
  "string \<Rightarrow> GrantPrivilegesToDatabaseRoleID option" where
  "NewGrantPrivilegesToDatabaseRoleID ident =
     (let parts = strings_Split ident (CHR ''|'') in
      do {
        p2 \<leftarrow> index parts 2;
        let privileges = strings_Split p2 (CHR '','');
        let privileges =
          (if length privileges = 1 \<and> privileges ! 0 = [] then [] else privileges);
        p0 \<leftarrow> index parts 0;
        p1 \<leftarrow> index parts 1;
        p3 \<leftarrow> index parts 3;
        p4 \<leftarrow> index parts 4;
        p5 \<leftarrow> index parts 5;
        p6 \<leftarrow> index parts 6;
        p7 \<leftarrow> index parts 7;
        p8 \<leftarrow> index parts 8;
        p9 \<leftarrow> index parts 9;
        p10 \<leftarrow> index parts 10;
        p11 \<leftarrow> index parts 11;
        p12 \<leftarrow> index parts 12;
        p13 \<leftarrow> index parts 13;
        p14 \<leftarrow> index parts 14;
        Some \<lparr>RoleName = p0, DatabaseName = p1, Privileges = privileges,
              AllPrivileges = (p3 = ''true''), WithGrantOption = (p4 = ''true''),
              OnDatabase = (p5 = ''true''), OnSchema = (p6 = ''true''),
              OnSchemaObject = (p7 = ''true''), AllFlag = (p8 = ''true''),
              Future = (p9 = ''true''), ObjectType = p10, ObjectName = p11,
              ObjectTypePlural = p12, InSchema = (p13 = ''true''), SchemaName = p14,
              InDatabase = False\<rparr>
      })"

text \<open>
  \<open>helpers.EncodeSnowflakeID\<close> is variadic over \<open>interface{}\<close>; the values passed
  to it here are strings, booleans and string slices.
\<close>

datatype attribute = AString string | ABool bool | AStrings "string list"

text \<open>
  Modelled from the spec: the helper \<open>helpers.EncodeSnowflakeID\<close> (package
  \<open>pkg/helpers\<close>) is not among the sources. The identifier format of the spec is
  "pipe-delimited fields in fixed order", with "comma-joined privileges" and "each
  boolean rendered as literal true/false": every attribute is rendered, and the
  renderings are joined with the delimiter \<open>|\<close>.
\<close>

fun renderAttribute :: "attribute \<Rightarrow> string" where
  "renderAttribute (AString s) = s"
| "renderAttribute (ABool b) = FormatBool b"
| "renderAttribute (AStrings xs) = strings_Join xs '',''"

definition EncodeSnowflakeID :: "attribute list \<Rightarrow> string" where
  "EncodeSnowflakeID attributes = strings_Join (map renderAttribute attributes) ''|''"

text \<open>
  The method \<open>String\<close> of the identifier: the fifteen arguments of the source's
  call, in its order. \<open>InDatabase\<close> is not among them.
\<close>

definition String :: "GrantPrivilegesToDatabaseRoleID \<Rightarrow> string" where
  "String v =
     EncodeSnowflakeID
       [AString (RoleName v), AString (DatabaseName v), AStrings (Privileges v),
        ABool (AllPrivileges v), ABool (WithGrantOption v), ABool (OnDatabase v),
        ABool (OnSchema v), ABool (OnSchemaObject v), ABool (AllFlag v),
        ABool (Future v), AString (ObjectType v), AString (ObjectName v),
        AString (ObjectTypePlural v), ABool (InSchema v), AString (SchemaName v)]"

section \<open>Errors\<close>

text \<open>
  Go error values. \<open>SnowflakeError\<close> is \<open>*gosnowflake.SnowflakeError\<close> with its
  \<open>Number\<close> and message, \<open>Errorf\<close> is \<open>fmt.Errorf("...: %w", err)\<close>, and
  \<open>OtherError\<close> is any other error. A function that can return an error returns
  \<open>error option\<close> (\<open>None\<close> is \<open>nil\<close>) or \<open>error + 'a\<close>.

  A runtime panic (an index out of range, a failed type assertion, a nil pointer
  dereference) is not an error value: a function that can panic returns an
  \<open>option\<close>, and \<open>None\<close> is the panic.
\<close>

datatype error =
    SnowflakeError int string
  | OtherError string
  | Errorf string error

section \<open>The types of the SDK that the resource fills in\<close>

text \<open>
  The declarations of package \<open>pkg/sdk\<close> are not among the sources; the types
  below have the fields the resource reads and writes, a pointer field being an
  \<open>option\<close> (\<open>None\<close> is \<open>nil\<close>). The identifier constructors of the SDK are
  kept as constructors of a datatype. Field names that occur in several structs
  carry a prefix.
\<close>

datatype ObjectIdentifier =
    NewAccountObjectIdentifierFromFullyQualifiedName string
  | NewDatabaseObjectIdentifier string string
  | NewSchemaObjectIdentifierFromFullyQualifiedName string

record Object =
  obj_ObjectType :: string
  obj_Name :: "ObjectIdentifier option"

record GrantOnSchema =
  gos_Schema :: "ObjectIdentifier option"
  AllSchemasInDatabase :: "ObjectIdentifier option"
  FutureSchemasInDatabase :: "ObjectIdentifier option"

record GrantOnSchemaObjectIn =
  PluralObjectType :: string
  goi_InDatabase :: "ObjectIdentifier option"
  goi_InSchema :: "ObjectIdentifier option"

record GrantOnSchemaObject =
  gso_SchemaObject :: "Object option"
  gso_All :: "GrantOnSchemaObjectIn option"
  gso_Future :: "GrantOnSchemaObjectIn option"

record DatabaseRoleGrantOn =
  on_Database :: "ObjectIdentifier option"
  on_Schema :: "GrantOnSchema option"
  on_SchemaObject :: "GrantOnSchemaObject option"

record DatabaseRoleGrantPrivileges =
  DatabasePrivileges :: "string list"
  SchemaPrivileges :: "string list"
  SchemaObjectPrivileges :: "string list"
  dp_AllPrivileges :: "bool option"

definition emptyGrantOnSchema :: GrantOnSchema where
  "emptyGrantOnSchema =
     \<lparr>gos_Schema = None, AllSchemasInDatabase = None, FutureSchemasInDatabase = None\<rparr>"

definition emptyGrantOnSchemaObject :: GrantOnSchemaObject where
  "emptyGrantOnSchemaObject = \<lparr>gso_SchemaObject = None, gso_All = None, gso_Future = None\<rparr>"

definition emptyDatabaseRoleGrantOn :: DatabaseRoleGrantOn where
  "emptyDatabaseRoleGrantOn = \<lparr>on_Database = None, on_Schema = None, on_SchemaObject = None\<rparr>"

definition emptyDatabaseRoleGrantPrivileges :: DatabaseRoleGrantPrivileges where
  "emptyDatabaseRoleGrantPrivileges =
     \<lparr>DatabasePrivileges = [], SchemaPrivileges = [], SchemaObjectPrivileges = [],
      dp_AllPrivileges = None\<rparr>"

text \<open>
  \<open>setDatabaseRolePrivilegeOptions\<close>. Each loop appends the privileges one by one
  to an empty slice, which copies the list. The result is a pointer: \<open>None\<close> is the
  \<open>nil\<close> of the last line.
\<close>

definition setDatabaseRolePrivilegeOptions ::
  "string list \<Rightarrow> bool \<Rightarrow> bool \<Rightarrow> bool \<Rightarrow> bool \<Rightarrow> DatabaseRoleGrantPrivileges option" where
  "setDatabaseRolePrivilegeOptions privileges allPrivileges onDatabase onSchema onSchemaObject =
     (if allPrivileges then
        Some (emptyDatabaseRoleGrantPrivileges\<lparr>dp_AllPrivileges := Some True\<rparr>)
      else if onDatabase then
        Some (emptyDatabaseRoleGrantPrivileges\<lparr>DatabasePrivileges := privileges\<rparr>)
      else if onSchema then
        Some (emptyDatabaseRoleGrantPrivileges\<lparr>SchemaPrivileges := privileges\<rparr>)
      else if onSchemaObject then
        Some (emptyDatabaseRoleGrantPrivileges\<lparr>SchemaObjectPrivileges := privileges\<rparr>)
      else None)"

section \<open>The configuration of the resource\<close>

text \<open>
  A value of the plugin framework's attribute bag (\<open>interface{}\<close>): a nested
  block is a list of maps from attribute names to values, and the list element of
  a block written without attributes is \<open>nil\<close>. A map is an association list.
\<close>

datatype tfvalue =
    TFNil
  | TFString string
  | TFBool bool
  | TFList "tfvalue list"
  | TFMap "(string \<times> tfvalue) list"

text \<open>The type assertions \<open>v.(string)\<close>, \<open>v.(bool)\<close>, \<open>v.([]interface{})\<close> and
  \<open>v.(map[string]interface{})\<close>: each panics on a value of another type.\<close>

fun as_string :: "tfvalue \<Rightarrow> string option" where
  "as_string (TFString s) = Some s"
| "as_string _ = None"

fun as_bool :: "tfvalue \<Rightarrow> bool option" where
  "as_bool (TFBool b) = Some b"
| "as_bool _ = None"

fun as_list :: "tfvalue \<Rightarrow> tfvalue list option" where
  "as_list (TFList vs) = Some vs"
| "as_list _ = None"

fun as_map :: "tfvalue \<Rightarrow> (string \<times> tfvalue) list option" where
  "as_map (TFMap m) = Some m"
| "as_map _ = None"

text \<open>
  The three guards the source puts on a map entry. The outer \<open>option\<close> is the
  panic of the type assertion; it is evaluated only when the key is present.
  \<^item> \<open>if v, ok := m[k]; ok && len(v.(string)) > 0\<close>: the string when the guard holds;
  \<^item> \<open>if v, ok := m[k]; ok && v.(bool)\<close>;
  \<^item> \<open>if v, ok := m[k]; ok && len(v.([]interface{})) > 0\<close>: the list when the guard
    holds.
\<close>

definition nonempty_string_at :: "(string \<times> tfvalue) list \<Rightarrow> string \<Rightarrow> string option option" where
  "nonempty_string_at m k =
     (case map_of m k of
        None \<Rightarrow> Some None
      | Some v \<Rightarrow> do { s \<leftarrow> as_string v; Some (if length s > 0 then Some s else None) })"

definition true_at :: "(string \<times> tfvalue) list \<Rightarrow> string \<Rightarrow> bool option" where
  "true_at m k = (case map_of m k of None \<Rightarrow> Some False | Some v \<Rightarrow> as_bool v)"

definition nonempty_list_at ::
  "(string \<times> tfvalue) list \<Rightarrow> string \<Rightarrow> tfvalue list option option" where
  "nonempty_list_at m k =
     (case map_of m k of
        None \<Rightarrow> Some None
      | Some v \<Rightarrow> do { vs \<leftarrow> as_list v; Some (if length vs > 0 then Some vs else None) })"

text \<open>
  \<open>schema.ResourceData\<close> for \<open>grantPrivilegesToDatabaseRoleSchema\<close>: the identifier
  and one field for each attribute of the schema. The set \<open>privileges\<close> is the list
  that \<open>Set.List()\<close> returns; \<open>privileges_old\<close> is the value of the prior state
  (the first component of \<open>d.GetChange("privileges")\<close>).
\<close>

record ResourceData =
  Id :: string
  privileges_old :: "string list"
  privileges :: "string list"
  all_privileges :: bool
  on_database :: bool
  on_schema :: "tfvalue list"
  on_schema_object :: "tfvalue list"
  role_name :: string
  database_name :: string
  with_grant_option :: bool

section \<open>Target resolution\<close>

text \<open>
  What \<open>configureDatabaseRoleGrantPrivilegeOptions\<close> returns when it returns no
  error: the privileges, the target \<open>on\<close>, and the identifier it has filled in
  through the pointer \<open>resourceID\<close>.
\<close>

type_synonym configured =
  "DatabaseRoleGrantPrivileges option \<times> DatabaseRoleGrantOn \<times> GrantPrivilegesToDatabaseRoleID"

text \<open>The branch \<open>on_schema\<close>; \<open>v0\<close> is the first element of the list.\<close>

definition configureOnSchema ::
  "tfvalue \<Rightarrow> string list \<Rightarrow> bool \<Rightarrow> GrantPrivilegesToDatabaseRoleID \<Rightarrow> configured option" where
  "configureOnSchema v0 privs allPrivileges resourceID =
     do {
       onSchema \<leftarrow> as_map v0;
       let sch = emptyGrantOnSchema;
       let resourceID = resourceID\<lparr>OnSchema := True\<rparr>;
       name \<leftarrow> nonempty_string_at onSchema ''schema_name'';
       let (sch, resourceID) =
         (case name of
            Some v \<Rightarrow>
              (sch\<lparr>gos_Schema := Some (NewDatabaseObjectIdentifier (DatabaseName resourceID) v)\<rparr>,
               resourceID\<lparr>SchemaName := v\<rparr>)
          | None \<Rightarrow> (sch, resourceID));
       allSchemas \<leftarrow> true_at onSchema ''all_schemas'';
       let (sch, resourceID) =
         (if allSchemas then
            (sch\<lparr>AllSchemasInDatabase :=
                   Some (NewAccountObjectIdentifierFromFullyQualifiedName (DatabaseName resourceID))\<rparr>,
             resourceID\<lparr>AllFlag := True, InDatabase := True\<rparr>)
          else (sch, resourceID));
       futureSchemas \<leftarrow> true_at onSchema ''future_schemas'';
       let (sch, resourceID) =
         (if futureSchemas then
            (sch\<lparr>FutureSchemasInDatabase :=
                   Some (NewAccountObjectIdentifierFromFullyQualifiedName (DatabaseName resourceID))\<rparr>,
             resourceID\<lparr>Future := True, InDatabase := True\<rparr>)
          else (sch, resourceID));
       Some (setDatabaseRolePrivilegeOptions privs allPrivileges False True False,
             emptyDatabaseRoleGrantOn\<lparr>on_Schema := Some sch\<rparr>,
             resourceID)
     }"

text \<open>
  The body shared by the blocks \<open>all\<close> and \<open>future\<close> of \<open>on_schema_object\<close>: the
  source has the same statements twice, on \<open>on.SchemaObject.All\<close> and on
  \<open>on.SchemaObject.Future\<close>. \<open>m["object_type_plural"].(string)\<close> has no guard, so
  a missing key panics.
\<close>

definition configureIn ::
  "(string \<times> tfvalue) list \<Rightarrow> GrantPrivilegesToDatabaseRoleID \<Rightarrow>
   (GrantOnSchemaObjectIn \<times> GrantPrivilegesToDatabaseRoleID) option" where
  "configureIn m resourceID =
     do {
       pluralObjectType \<leftarrow>
         (case map_of m ''object_type_plural'' of None \<Rightarrow> None | Some v \<Rightarrow> as_string v);
       let resourceID = resourceID\<lparr>ObjectTypePlural := pluralObjectType\<rparr>;
       let gin = \<lparr>PluralObjectType = pluralObjectType, goi_InDatabase = None, goi_InSchema = None\<rparr>;
       inDatabase \<leftarrow> true_at m ''in_database'';
       let (gin, resourceID) =
         (if inDatabase then
            (gin\<lparr>goi_InDatabase :=
                   Some (NewAccountObjectIdentifierFromFullyQualifiedName (DatabaseName resourceID))\<rparr>,
             resourceID\<lparr>InDatabase := True\<rparr>)
          else (gin, resourceID));
       inSchema \<leftarrow> nonempty_string_at m ''in_schema'';
       let (gin, resourceID) =
         (case inSchema of
            Some v \<Rightarrow>
              (gin\<lparr>goi_InSchema := Some (NewDatabaseObjectIdentifier (DatabaseName resourceID) v)\<rparr>,
               resourceID\<lparr>InSchema := True, SchemaName := v\<rparr>)
          | None \<Rightarrow> (gin, resourceID));
       Some (gin, resourceID)
     }"

text \<open>
  The branch \<open>on_schema_object\<close>. With \<open>object_name\<close> set and \<open>object_type\<close>
  empty, \<open>on.SchemaObject.SchemaObject\<close> is still \<open>nil\<close> when its field \<open>Name\<close> is
  assigned: a nil pointer dereference.
\<close>

definition configureOnSchemaObject ::
  "tfvalue \<Rightarrow> string list \<Rightarrow> bool \<Rightarrow> GrantPrivilegesToDatabaseRoleID \<Rightarrow> configured option" where
  "configureOnSchemaObject v0 privs allPrivileges resourceID =
     do {
       onSchemaObject \<leftarrow> as_map v0;
       let so = emptyGrantOnSchemaObject;
       let resourceID = resourceID\<lparr>OnSchemaObject := True\<rparr>;
       objectType \<leftarrow> nonempty_string_at onSchemaObject ''object_type'';
       let (so, resourceID) =
         (case objectType of
            Some v \<Rightarrow>
              (so\<lparr>gso_SchemaObject := Some \<lparr>obj_ObjectType = v, obj_Name = None\<rparr>\<rparr>,
               resourceID\<lparr>ObjectType := v\<rparr>)
          | None \<Rightarrow> (so, resourceID));
       objectName \<leftarrow> nonempty_string_at onSchemaObject ''object_name'';
       (so, resourceID) \<leftarrow>
         (case objectName of
            Some v \<Rightarrow>
              (case gso_SchemaObject so of
                 None \<Rightarrow> None
               | Some ob \<Rightarrow>
                   Some (so\<lparr>gso_SchemaObject :=
                              Some (ob\<lparr>obj_Name :=
                                Some (NewSchemaObjectIdentifierFromFullyQualifiedName
                                        (DatabaseName resourceID @ ''.'' @ v))\<rparr>)\<rparr>,
                         resourceID\<lparr>ObjectName := v\<rparr>))
          | None \<Rightarrow> Some (so, resourceID));
       allBlock \<leftarrow> nonempty_list_at onSchemaObject ''all'';
       (so, resourceID) \<leftarrow>
         (case allBlock of
            Some vs \<Rightarrow>
              do {
                m \<leftarrow> as_map (vs ! 0);
                (gin, resourceID) \<leftarrow> configureIn m (resourceID\<lparr>AllFlag := True\<rparr>);
                Some (so\<lparr>gso_All := Some gin\<rparr>, resourceID)
              }
          | None \<Rightarrow> Some (so, resourceID));
       futureBlock \<leftarrow> nonempty_list_at onSchemaObject ''future'';
       (so, resourceID) \<leftarrow>
         (case futureBlock of
            Some vs \<Rightarrow>
              do {
                m \<leftarrow> as_map (vs ! 0);
                (gin, resourceID) \<leftarrow> configureIn m (resourceID\<lparr>Future := True\<rparr>);
                Some (so\<lparr>gso_Future := Some gin\<rparr>, resourceID)
              }
          | None \<Rightarrow> Some (so, resourceID));
       Some (setDatabaseRolePrivilegeOptions privs allPrivileges False False True,
             emptyDatabaseRoleGrantOn\<lparr>on_SchemaObject := Some so\<rparr>,
             resourceID)
     }"

text \<open>
  \<open>configureDatabaseRoleGrantPrivilegeOptions\<close>. \<open>d.GetOk\<close> reports a value that
  is not the zero value of its type, so the three guards are: \<open>on_database\<close> is
  true; the list \<open>on_schema\<close> is not empty; the list \<open>on_schema_object\<close> is not
  empty. They are tried in this order and the first that holds returns.
\<close>

definition configureDatabaseRoleGrantPrivilegeOptions ::
  "ResourceData \<Rightarrow> string list \<Rightarrow> bool \<Rightarrow> GrantPrivilegesToDatabaseRoleID \<Rightarrow>
   (error + configured) option" where
  "configureDatabaseRoleGrantPrivilegeOptions d privs allPrivileges resourceID =
     (if on_database d then
        Some (Inr (setDatabaseRolePrivilegeOptions privs allPrivileges True False False,
                   emptyDatabaseRoleGrantOn\<lparr>on_Database :=
                     Some (NewAccountObjectIdentifierFromFullyQualifiedName (DatabaseName resourceID))\<rparr>,
                   resourceID\<lparr>OnDatabase := True\<rparr>))
      else if length (on_schema d) > 0 then
        map_option Inr (configureOnSchema (on_schema d ! 0) privs allPrivileges resourceID)
      else if length (on_schema_object d) > 0 then
        map_option Inr (configureOnSchemaObject (on_schema_object d ! 0) privs allPrivileges resourceID)
      else Some (Inl (OtherError ''invalid grant options'')))"

section \<open>The remote system\<close>

text \<open>
  The options of \<open>SHOW GRANTS\<close> (\<open>sdk.ShowGrantOptions\<close>); \<open>show_On\<close> is the
  \<open>Object\<close> of \<open>ShowGrantsOn\<close>, the only field of it the resource sets.
\<close>

record ShowGrantsIn =
  in_Schema :: "ObjectIdentifier option"
  in_Database :: "ObjectIdentifier option"

record ShowGrantOptions =
  show_Future :: "bool option"
  show_On :: "Object option"
  show_In :: "ShowGrantsIn option"

definition emptyShowGrantOptions :: ShowGrantOptions where
  "emptyShowGrantOptions = \<lparr>show_Future = None, show_On = None, show_In = None\<rparr>"

text \<open>
  A row of \<open>SHOW GRANTS\<close> (\<open>sdk.Grant\<close>), with the fields the resource reads;
  \<open>GranteeName\<close> and \<open>GrantedBy\<close> hold what the method \<open>Name()\<close> returns.
\<close>

record Grant =
  Privilege :: string
  GrantOption :: bool
  GranteeName :: string
  GrantedBy :: string
  GrantedOn :: string
  GrantOn :: string

text \<open>
  Every call to the remote system, in the order it is issued, is recorded in a
  trace. \<open>Exec\<close> is \<open>snowflake.Exec(db, sql)\<close>; the others are the functions and
  client methods of the same names.
\<close>

datatype call =
    Exec string
  | ListRoles string
  | ListUsers string
  | GrantPrivilegesToDatabaseRole
      "DatabaseRoleGrantPrivileges option" DatabaseRoleGrantOn ObjectIdentifier "bool option"
  | RevokePrivilegesFromDatabaseRole
      "DatabaseRoleGrantPrivileges option" DatabaseRoleGrantOn ObjectIdentifier
  | Show ShowGrantOptions

text \<open>
  The remote system answers a call as a function of the calls before it and of the
  call: with an error or \<open>nil\<close> to a statement, with names to a listing (the
  names of the roles, or the login names of the users, that the listing returned;
  the callers drop its error), with rows or an error to \<open>SHOW GRANTS\<close>.
\<close>

record remote =
  status_of :: "call list \<Rightarrow> call \<Rightarrow> error option"
  names_of :: "call list \<Rightarrow> call \<Rightarrow> string list"
  grants_of :: "call list \<Rightarrow> call \<Rightarrow> error + Grant list"

text \<open>
  Declarations of the repository that are not among the sources and whose values
  the resources only pass on: the object type constants of the SDK, the method
  \<open>Singular\<close> of \<open>sdk.PluralObjectType\<close>, and \<open>snowflake.Contains\<close>. They are
  parameters.
\<close>

record environment =
  ObjectTypeDatabase :: string
  ObjectTypeSchema :: string
  Singular :: "string \<Rightarrow> string"
  snowflake_Contains :: "string list \<Rightarrow> string \<Rightarrow> bool"

section \<open>Read\<close>

text \<open>
  The loop of \<open>readDatabaseRoleGrantPrivileges\<close> over the rows, with the slice
  \<open>privileges\<close> it appends to. A \<open>continue\<close> is the recursive call on the
  unchanged slice.
\<close>

fun attributedPrivileges ::
  "string \<Rightarrow> GrantPrivilegesToDatabaseRoleID \<Rightarrow> bool \<Rightarrow> string \<Rightarrow> Grant list \<Rightarrow> string list \<Rightarrow>
   string list" where
  "attributedPrivileges grantedOn ident withGrantOption roleName [] privs = privs"
| "attributedPrivileges grantedOn ident withGrantOption roleName (grant # grants) privs =
     (if \<not> slices_Contains (Privileges ident) (Privilege grant) then
        attributedPrivileges grantedOn ident withGrantOption roleName grants privs
      else if GrantOption grant = withGrantOption \<and> GranteeName grant = roleName then
        (if \<not> Future ident \<and> GrantedBy grant = [] then
           attributedPrivileges grantedOn ident withGrantOption roleName grants privs
         else if grantedOn = GrantedOn grant \<or> grantedOn = GrantOn grant then
           attributedPrivileges grantedOn ident withGrantOption roleName grants
             (privs @ [Privilege grant])
         else attributedPrivileges grantedOn ident withGrantOption roleName grants privs)
      else attributedPrivileges grantedOn ident withGrantOption roleName grants privs)"

text \<open>
  \<open>readDatabaseRoleGrantPrivileges\<close>: the error it returns, the resource data
  after it, and the trace.
\<close>

definition readDatabaseRoleGrantPrivileges ::
  "remote \<Rightarrow> string \<Rightarrow> GrantPrivilegesToDatabaseRoleID \<Rightarrow> ShowGrantOptions \<Rightarrow> ResourceData \<Rightarrow>
   call list \<Rightarrow> (error option \<times> ResourceData) \<times> call list" where
  "readDatabaseRoleGrantPrivileges R grantedOn ident opts d tr =
     (case grants_of R tr (Show opts) of
        Inl err \<Rightarrow>
          ((Some (Errorf ''error retrieving grants for database role'' err), d),
           tr @ [Show opts])
      | Inr grants \<Rightarrow>
          ((None,
            d\<lparr>privileges :=
                attributedPrivileges grantedOn ident (with_grant_option d) (role_name d) grants []\<rparr>),
           tr @ [Show opts]))"

text \<open>
  \<open>ReadGrantPrivilegesToDatabaseRole\<close> sets \<open>grantOn\<close> and \<open>opts\<close> in three
  consecutive \<open>if\<close> blocks; two of them can return \<open>nil\<close> from the function.
\<close>

datatype 'a early = ReturnNil | Continue 'a

definition readOnDatabase ::
  "environment \<Rightarrow> GrantPrivilegesToDatabaseRoleID \<Rightarrow> string \<times> ShowGrantOptions \<Rightarrow>
   string \<times> ShowGrantOptions" where
  "readOnDatabase env resourceID t =
     (if OnDatabase resourceID then
        (ObjectTypeDatabase env,
         emptyShowGrantOptions\<lparr>show_On :=
           Some \<lparr>obj_ObjectType = ObjectTypeDatabase env,
                 obj_Name = Some (NewAccountObjectIdentifierFromFullyQualifiedName
                                    (DatabaseName resourceID))\<rparr>\<rparr>)
      else t)"

definition readOnSchema ::
  "environment \<Rightarrow> GrantPrivilegesToDatabaseRoleID \<Rightarrow> string \<times> ShowGrantOptions \<Rightarrow>
   (string \<times> ShowGrantOptions) early" where
  "readOnSchema env resourceID t =
     (if OnSchema resourceID then
        (let grantOn = ObjectTypeSchema env;
             opts = (if SchemaName resourceID \<noteq> [] then
                       emptyShowGrantOptions\<lparr>show_On :=
                         Some \<lparr>obj_ObjectType = ObjectTypeSchema env,
                               obj_Name = Some (NewDatabaseObjectIdentifier
                                 (DatabaseName resourceID) (SchemaName resourceID))\<rparr>\<rparr>
                     else snd t)
         in if AllFlag resourceID then ReturnNil
            else Continue
              (grantOn,
               if Future resourceID then
                 emptyShowGrantOptions\<lparr>show_Future := Some True,
                   show_In := Some \<lparr>in_Schema = None,
                     in_Database = Some (NewAccountObjectIdentifierFromFullyQualifiedName
                                           (DatabaseName resourceID))\<rparr>\<rparr>
               else opts))
      else Continue t)"

definition readOnSchemaObject ::
  "environment \<Rightarrow> GrantPrivilegesToDatabaseRoleID \<Rightarrow> string \<times> ShowGrantOptions \<Rightarrow>
   (string \<times> ShowGrantOptions) early" where
  "readOnSchemaObject env resourceID t =
     (if OnSchemaObject resourceID then
        (let (grantOn, opts) =
               (if ObjectName resourceID \<noteq> [] then
                  (ObjectType resourceID,
                   emptyShowGrantOptions\<lparr>show_On :=
                     Some \<lparr>obj_ObjectType = ObjectType resourceID,
                           obj_Name = Some (NewSchemaObjectIdentifierFromFullyQualifiedName
                             (DatabaseName resourceID @ ''.'' @ ObjectName resourceID))\<rparr>\<rparr>)
                else t)
         in if AllFlag resourceID then ReturnNil
            else if Future resourceID then
              (let grantOn = Singular env (ObjectTypePlural resourceID);
                   opts = (if InSchema resourceID then
                             emptyShowGrantOptions\<lparr>show_Future := Some True,
                               show_In := Some \<lparr>in_Schema = Some (NewDatabaseObjectIdentifier
                                   (DatabaseName resourceID) (SchemaName resourceID)),
                                 in_Database = None\<rparr>\<rparr>
                           else opts);
                   opts = emptyShowGrantOptions\<lparr>show_Future := Some True,
                            show_In := Some \<lparr>in_Schema = None,
                              in_Database = Some (NewAccountObjectIdentifierFromFullyQualifiedName
                                                    (DatabaseName resourceID))\<rparr>\<rparr>
               in Continue (grantOn, opts))
            else Continue (grantOn, opts))
      else Continue t)"

text \<open>
  \<open>ReadGrantPrivilegesToDatabaseRole\<close>. The result is \<open>None\<close> when the decoder
  panics, and otherwise the returned error with the resource data. \<open>grantOn\<close>
  starts as the empty object type and \<open>opts\<close> as the zero value.
\<close>

definition ReadGrantPrivilegesToDatabaseRole ::
  "environment \<Rightarrow> remote \<Rightarrow> ResourceData \<Rightarrow> call list \<Rightarrow>
   (error option \<times> ResourceData) option \<times> call list" where
  "ReadGrantPrivilegesToDatabaseRole env R d tr =
     (case NewGrantPrivilegesToDatabaseRoleID (Id d) of
        None \<Rightarrow> (None, tr)
      | Some resourceID \<Rightarrow>
          if AllPrivileges resourceID then (Some (None, d), tr)
          else
            (case readOnSchema env resourceID
                    (readOnDatabase env resourceID ([], emptyShowGrantOptions)) of
               ReturnNil \<Rightarrow> (Some (None, d), tr)
             | Continue t \<Rightarrow>
                 (case readOnSchemaObject env resourceID t of
                    ReturnNil \<Rightarrow> (Some (None, d), tr)
                  | Continue (grantOn, opts) \<Rightarrow>
                      (case readDatabaseRoleGrantPrivileges R grantOn resourceID opts d tr of
                         (r, tr') \<Rightarrow> (Some r, tr')))))"

section \<open>Create, Update and Delete\<close>

text \<open>
  \<open>CreateGrantPrivilegesToDatabaseRole\<close>. \<open>d.GetOk("privileges")\<close> reports a set
  that is not empty.
\<close>

definition CreateGrantPrivilegesToDatabaseRole ::
  "environment \<Rightarrow> remote \<Rightarrow> ResourceData \<Rightarrow> call list \<Rightarrow>
   (error option \<times> ResourceData) option \<times> call list" where
  "CreateGrantPrivilegesToDatabaseRole env R d tr =
     (let privs = (if privileges d \<noteq> [] then privileges d else []);
          resourceID = emptyID\<lparr>Privileges := privs, AllPrivileges := all_privileges d,
                               DatabaseName := database_name d\<rparr>
      in case configureDatabaseRoleGrantPrivilegeOptions d privs (all_privileges d) resourceID of
           None \<Rightarrow> (None, tr)
         | Some (Inl err) \<Rightarrow>
             (Some (Some (Errorf ''error configuring database role grant privilege options'' err),
                    d), tr)
         | Some (Inr (privilegesToGrant, on, resourceID)) \<Rightarrow>
             (let resourceID = resourceID\<lparr>WithGrantOption := with_grant_option d,
                                            RoleName := role_name d\<rparr>;
                  roleID = NewDatabaseObjectIdentifier (database_name d) (role_name d);
                  c = GrantPrivilegesToDatabaseRole privilegesToGrant on roleID
                        (Some (with_grant_option d))
              in case status_of R tr c of
                   Some err \<Rightarrow>
                     (Some (Some (Errorf ''error granting privileges to database role'' err), d),
                      tr @ [c])
                 | None \<Rightarrow>
                     ReadGrantPrivilegesToDatabaseRole env R
                       (d\<lparr>Id := String resourceID\<rparr>) (tr @ [c])))"

text \<open>
  \<open>d.HasChange("privileges")\<close> compares the old and the new set with the \<open>Equal\<close>
  of \<open>schema.Set\<close>.
\<close>

definition HasChange_privileges :: "ResourceData \<Rightarrow> bool" where
  "HasChange_privileges d = (set (privileges_old d) \<noteq> set (privileges d))"

text \<open>The two loops of \<open>UpdateGrantPrivilegesToDatabaseRole\<close> that compute the delta.\<close>

definition removePrivileges :: "string list \<Rightarrow> string list \<Rightarrow> string list" where
  "removePrivileges oldPrivileges newPrivileges =
     filter (\<lambda>oldPrivilege. \<not> slices_Contains newPrivileges oldPrivilege) oldPrivileges"

definition addPrivileges :: "string list \<Rightarrow> string list \<Rightarrow> string list" where
  "addPrivileges oldPrivileges newPrivileges =
     filter (\<lambda>newPrivilege. \<not> slices_Contains oldPrivileges newPrivilege) newPrivileges"

text \<open>
  The block under the comment "first add new privileges": \<open>None\<close> is a panic of
  the target resolution, \<open>Some err\<close> what the block leaves in \<open>err\<close> (the function
  returns when it is not \<open>nil\<close>).
\<close>

definition grantAddedPrivileges ::
  "remote \<Rightarrow> ResourceData \<Rightarrow> ObjectIdentifier \<Rightarrow> string list \<Rightarrow> call list \<Rightarrow>
   error option option \<times> call list" where
  "grantAddedPrivileges R d roleID added tr =
     (if length added > 0 then
        (case configureDatabaseRoleGrantPrivilegeOptions d added False emptyID of
           None \<Rightarrow> (None, tr)
         | Some (Inl err) \<Rightarrow>
             (Some (Some (Errorf ''error configuring database role grant privilege options'' err)),
              tr)
         | Some (Inr (privilegesToGrant, on, resourceID)) \<Rightarrow>
             (let c = GrantPrivilegesToDatabaseRole privilegesToGrant on roleID None
              in (Some (map_option (Errorf ''error granting privileges to database role'')
                          (status_of R tr c)),
                  tr @ [c])))
      else (Some None, tr))"

text \<open>The block under the comment "then remove old privileges".\<close>

definition revokeRemovedPrivileges ::
  "remote \<Rightarrow> ResourceData \<Rightarrow> ObjectIdentifier \<Rightarrow> string list \<Rightarrow> call list \<Rightarrow>
   error option option \<times> call list" where
  "revokeRemovedPrivileges R d roleID removed tr =
     (if length removed > 0 then
        (case configureDatabaseRoleGrantPrivilegeOptions d removed False emptyID of
           None \<Rightarrow> (None, tr)
         | Some (Inl err) \<Rightarrow>
             (Some (Some (Errorf ''error configuring database role grant privilege options'' err)),
              tr)
         | Some (Inr (privilegesToRevoke, on, resourceID)) \<Rightarrow>
             (let c = RevokePrivilegesFromDatabaseRole privilegesToRevoke on roleID
              in (Some (map_option (Errorf ''error revoking privileges from database role'')
                          (status_of R tr c)),
                  tr @ [c])))
      else (Some None, tr))"

definition UpdateGrantPrivilegesToDatabaseRole ::
  "environment \<Rightarrow> remote \<Rightarrow> ResourceData \<Rightarrow> call list \<Rightarrow>
   (error option \<times> ResourceData) option \<times> call list" where
  "UpdateGrantPrivilegesToDatabaseRole env R d tr =
     (let roleID = NewDatabaseObjectIdentifier (database_name d) (role_name d) in
      if HasChange_privileges d then
        (let oldPrivileges = privileges_old d;
             newPrivileges = privileges d;
             removed = removePrivileges oldPrivileges newPrivileges;
             added = addPrivileges oldPrivileges newPrivileges
         in case grantAddedPrivileges R d roleID added tr of
              (None, tr1) \<Rightarrow> (None, tr1)
            | (Some (Some err), tr1) \<Rightarrow> (Some (Some err, d), tr1)
            | (Some None, tr1) \<Rightarrow>
                (case revokeRemovedPrivileges R d roleID removed tr1 of
                   (None, tr2) \<Rightarrow> (None, tr2)
                 | (Some (Some err), tr2) \<Rightarrow> (Some (Some err, d), tr2)
                 | (Some None, tr2) \<Rightarrow>
                     (case NewGrantPrivilegesToDatabaseRoleID (Id d) of
                        None \<Rightarrow> (None, tr2)
                      | Some resourceID \<Rightarrow>
                          ReadGrantPrivilegesToDatabaseRole env R
                            (d\<lparr>Id := String (resourceID\<lparr>Privileges := newPrivileges\<rparr>)\<rparr>) tr2)))
      else ReadGrantPrivilegesToDatabaseRole env R d tr)"

definition DeleteGrantPrivilegesToDatabaseRole ::
  "remote \<Rightarrow> ResourceData \<Rightarrow> call list \<Rightarrow> (error option \<times> ResourceData) option \<times> call list" where
  "DeleteGrantPrivilegesToDatabaseRole R d tr =
     (let roleID = NewDatabaseObjectIdentifier (database_name d) (role_name d);
          privs = (if privileges d \<noteq> [] then privileges d else [])
      in case configureDatabaseRoleGrantPrivilegeOptions d privs (all_privileges d) emptyID of
           None \<Rightarrow> (None, tr)
         | Some (Inl err) \<Rightarrow>
             (Some (Some (Errorf ''error configuring database role grant privilege options'' err),
                    d), tr)
         | Some (Inr (privilegesToRevoke, on, resourceID)) \<Rightarrow>
             (let c = RevokePrivilegesFromDatabaseRole privilegesToRevoke on roleID
              in case status_of R tr c of
                   Some err \<Rightarrow>
                     (Some (Some (Errorf ''error revoking privileges from database role'' err), d),
                      tr @ [c])
                 | None \<Rightarrow> (Some (None, d\<lparr>Id := []\<rparr>), tr @ [c])))"

section \<open>Granting a database role to roles and users\<close>

text \<open>
  \<open>pkg/snowflake/database\_role\_grant.go\<close>. The type \<open>granteeType\<close> and its two
  constants are declared outside the sources; the test of the builder shows how
  \<open>%s\<close> prints them.
\<close>

datatype granteeType = userType | roleType

fun granteeType_string :: "granteeType \<Rightarrow> string" where
  "granteeType_string userType = ''USER''"
| "granteeType_string roleType = ''ROLE''"

text \<open>The fields of the two structs carry the name of the receiver as a prefix.\<close>

record DatabaseRoleGrantBuilder =
  gb_databaseName :: string
  gb_roleName :: string

record DatabaseRoleGrantExecutable =
  gr_databaseName :: string
  gr_roleName :: string
  gr_granteeType :: granteeType
  gr_grantee :: string

definition DatabaseRoleGrant :: "string \<Rightarrow> string \<Rightarrow> DatabaseRoleGrantBuilder" where
  "DatabaseRoleGrant database role = \<lparr>gb_databaseName = database, gb_roleName = role\<rparr>"

definition User :: "DatabaseRoleGrantBuilder \<Rightarrow> string \<Rightarrow> DatabaseRoleGrantExecutable" where
  "User gb user =
     \<lparr>gr_databaseName = gb_databaseName gb, gr_roleName = gb_roleName gb, gr_granteeType = userType,
      gr_grantee = user\<rparr>"

definition Role :: "DatabaseRoleGrantBuilder \<Rightarrow> string \<Rightarrow> DatabaseRoleGrantExecutable" where
  "Role gb role =
     \<lparr>gr_databaseName = gb_databaseName gb, gr_roleName = gb_roleName gb, gr_granteeType = roleType,
      gr_grantee = role\<rparr>"

text \<open>The double quote of the statements.\<close>

definition dq :: string where
  "dq = [CHR 0x22]"

definition Grant_sql :: "DatabaseRoleGrantExecutable \<Rightarrow> string" where
  "Grant_sql gr =
     ''GRANT DATABASE ROLE '' @ dq @ gr_databaseName gr @ ''.'' @ gr_roleName gr @ dq @ '' TO '' @
     granteeType_string (gr_granteeType gr) @ '' '' @ dq @ gr_grantee gr @ dq"

definition Revoke_sql :: "DatabaseRoleGrantExecutable \<Rightarrow> string" where
  "Revoke_sql gr =
     ''REVOKE DATABASE ROLE '' @ dq @ gr_databaseName gr @ ''.'' @ gr_roleName gr @ dq @ '' FROM '' @
     granteeType_string (gr_granteeType gr) @ '' '' @ dq @ gr_grantee gr @ dq"

text \<open>
  \<open>grantDatabaseRoleToRole\<close> and \<open>grantDatabaseRoleToUser\<close>: the error of the
  statement, and the trace.
\<close>

definition grantDatabaseRoleToRole ::
  "remote \<Rightarrow> string \<Rightarrow> string \<Rightarrow> string \<Rightarrow> call list \<Rightarrow> error option \<times> call list" where
  "grantDatabaseRoleToRole R database role1 role2 tr =
     (let c = Exec (Grant_sql (Role (DatabaseRoleGrant database role1) role2))
      in (status_of R tr c, tr @ [c]))"

definition grantDatabaseRoleToUser ::
  "remote \<Rightarrow> string \<Rightarrow> string \<Rightarrow> string \<Rightarrow> call list \<Rightarrow> error option \<times> call list" where
  "grantDatabaseRoleToUser R database role1 user tr =
     (let c = Exec (Grant_sql (User (DatabaseRoleGrant database role1) user))
      in (status_of R tr c, tr @ [c]))"

text \<open>
  \<open>revokeDatabaseRoleFromRole\<close>. The type assertion
  \<open>err.(*gosnowflake.SnowflakeError)\<close> holds for a \<open>SnowflakeError\<close> only, not for
  \<open>nil\<close> and not for an error that wraps one. The roles are listed only for the
  number 2003, and the error of the listing is dropped.
\<close>

definition revokeDatabaseRoleFromRole ::
  "remote \<Rightarrow> string \<Rightarrow> string \<Rightarrow> string \<Rightarrow> call list \<Rightarrow> error option \<times> call list" where
  "revokeDatabaseRoleFromRole R database role1 role2 tr =
     (let c = Exec (Revoke_sql (Role (DatabaseRoleGrant database role1) role2));
          err = status_of R tr c;
          tr1 = tr @ [c]
      in case err of
           Some (SnowflakeError number msg) \<Rightarrow>
             if number = 2003 then
               (let roleNames = names_of R tr1 (ListRoles role2);
                    tr2 = tr1 @ [ListRoles role2]
                in if \<not> slices_Contains roleNames role2 then (None, tr2) else (err, tr2))
             else (err, tr1)
         | _ \<Rightarrow> (err, tr1))"

text \<open>
  \<open>revokeDatabaseRoleFromUser\<close>: the same with the login names of the listed
  users and \<open>snowflake.Contains\<close>.
\<close>

definition revokeDatabaseRoleFromUser ::
  "environment \<Rightarrow> remote \<Rightarrow> string \<Rightarrow> string \<Rightarrow> string \<Rightarrow> call list \<Rightarrow>
   error option \<times> call list" where
  "revokeDatabaseRoleFromUser env R database role1 user tr =
     (let c = Exec (Revoke_sql (User (DatabaseRoleGrant database role1) user));
          err = status_of R tr c;
          tr1 = tr @ [c]
      in case err of
           Some (SnowflakeError number msg) \<Rightarrow>
             if number = 2003 then
               (let logins = names_of R tr1 (ListUsers user);
                    tr2 = tr1 @ [ListUsers user]
                in if \<not> snowflake_Contains env logins user then (None, tr2) else (err, tr2))
             else (err, tr1)
         | _ \<Rightarrow> (err, tr1))"

text \<open>
  A loop \<open>for _, user := range targets\<close> whose body returns the first error of
  \<open>f\<close>.
\<close>

fun forEach ::
  "(string \<Rightarrow> call list \<Rightarrow> error option \<times> call list) \<Rightarrow> string list \<Rightarrow> call list \<Rightarrow>
   error option \<times> call list" where
  "forEach f [] tr = (None, tr)"
| "forEach f (target # targets) tr =
     (case f target tr of
        (Some err, tr') \<Rightarrow> (Some err, tr')
      | (None, tr') \<Rightarrow> forEach f targets tr')"

text \<open>
  The closure \<open>x\<close> of \<open>UpdateDatabaseRoleGrants\<close>, for one of the attributes
  \<open>users\<close> and \<open>roles\<close>: \<open>os\<close> and \<open>ns\<close> are the lists of the old and the new set
  (a \<open>nil\<close> set is the empty list), \<open>Difference\<close> keeps the elements of the first
  set that are not in the second.
\<close>

definition Difference :: "string list \<Rightarrow> string list \<Rightarrow> string list" where
  "Difference s other = filter (\<lambda>v. v \<notin> set other) s"

definition UpdateDatabaseRoleGrants_x ::
  "(string \<Rightarrow> call list \<Rightarrow> error option \<times> call list) \<Rightarrow>
   (string \<Rightarrow> call list \<Rightarrow> error option \<times> call list) \<Rightarrow>
   string list \<Rightarrow> string list \<Rightarrow> call list \<Rightarrow> error option \<times> call list" where
  "UpdateDatabaseRoleGrants_x grant revoke os ns tr =
     (let remove = Difference os ns;
          add = Difference ns os
      in case forEach revoke remove tr of
           (Some err, tr1) \<Rightarrow> (Some err, tr1)
         | (None, tr1) \<Rightarrow> forEach grant add tr1)"

text \<open>
  The two calls of \<open>x\<close> in \<open>UpdateDatabaseRoleGrants\<close>, up to the final read:
  first the users, then the roles. The four lists are the old and the new value
  of the two attributes.
\<close>

definition UpdateDatabaseRoleGrants_changes ::
  "environment \<Rightarrow> remote \<Rightarrow> string \<Rightarrow> string \<Rightarrow> string list \<Rightarrow> string list \<Rightarrow>
   string list \<Rightarrow> string list \<Rightarrow> call list \<Rightarrow> error option \<times> call list" where
  "UpdateDatabaseRoleGrants_changes env R database role oldUsers newUsers oldRoles newRoles tr =
     (case UpdateDatabaseRoleGrants_x
             (grantDatabaseRoleToUser R database role)
             (revokeDatabaseRoleFromUser env R database role) oldUsers newUsers tr of
        (Some err, tr1) \<Rightarrow> (Some err, tr1)
      | (None, tr1) \<Rightarrow>
          UpdateDatabaseRoleGrants_x
            (grantDatabaseRoleToRole R database role)
            (revokeDatabaseRoleFromRole R database role) oldRoles newRoles tr1)"

section \<open>The order of statements in a trace\<close>

text \<open>
  A grant statement is an executed SQL text that starts with \<open>GRANT\<close>, or a call
  of \<open>GrantPrivilegesToDatabaseRole\<close>; a revoke statement likewise.
\<close>

fun is_grant :: "call \<Rightarrow> bool" where
  "is_grant (Exec sql) = (take 6 sql = ''GRANT '')"
| "is_grant (GrantPrivilegesToDatabaseRole p on r opts) = True"
| "is_grant _ = False"

fun is_revoke :: "call \<Rightarrow> bool" where
  "is_revoke (Exec sql) = (take 7 sql = ''REVOKE '')"
| "is_revoke (RevokePrivilegesFromDatabaseRole p on r) = True"
| "is_revoke _ = False"

text \<open>
  Every revoke statement of the trace is issued before any grant statement: no
  grant statement has a revoke statement after it. And the converse order.
\<close>

fun revokes_before_grants :: "call list \<Rightarrow> bool" where
  "revokes_before_grants [] = True"
| "revokes_before_grants (c # cs) =
     ((\<not> is_grant c \<or> \<not> list_ex is_revoke cs) \<and> revokes_before_grants cs)"

fun grants_before_revokes :: "call list \<Rightarrow> bool" where
  "grants_before_revokes [] = True"
| "grants_before_revokes (c # cs) =
     ((\<not> is_revoke c \<or> \<not> list_ex is_grant cs) \<and> grants_before_revokes cs)"

section \<open>Predicates and inputs of the properties\<close>

text \<open>
  An identifier whose fields can be told apart in the encoded string: no name
  holds the delimiter \<open>|\<close>, no privilege holds \<open>|\<close> or the delimiter \<open>,\<close> of the
  list, and the privilege list is not the single empty privilege (which is joined
  to the same segment as the empty list).
\<close>

definition validID :: "GrantPrivilegesToDatabaseRoleID \<Rightarrow> bool" where
  "validID v =
     (CHR ''|'' \<notin> set (RoleName v) \<and> CHR ''|'' \<notin> set (DatabaseName v) \<and>
      CHR ''|'' \<notin> set (ObjectType v) \<and> CHR ''|'' \<notin> set (ObjectName v) \<and>
      CHR ''|'' \<notin> set (ObjectTypePlural v) \<and> CHR ''|'' \<notin> set (SchemaName v) \<and>
      list_all (\<lambda>p. CHR ''|'' \<notin> set p \<and> CHR '','' \<notin> set p) (Privileges v) \<and>
      Privileges v \<noteq> [[]])"

text \<open>
  The fifteen fields of the identifier string, in the order of the format.
\<close>

definition fields :: "GrantPrivilegesToDatabaseRoleID \<Rightarrow> string list" where
  "fields v =
     [RoleName v, DatabaseName v, strings_Join (Privileges v) '','',
      FormatBool (AllPrivileges v), FormatBool (WithGrantOption v), FormatBool (OnDatabase v),
      FormatBool (OnSchema v), FormatBool (OnSchemaObject v), FormatBool (AllFlag v),
      FormatBool (Future v), ObjectType v, ObjectName v, ObjectTypePlural v,
      FormatBool (InSchema v), SchemaName v]"

text \<open>
  A configuration with the block \<open>on_schema_object { all { object_type_plural =
  "TABLES", in_database = true } }\<close>, as in the acceptance test
  \<open>TestAcc_GrantPrivilegesToDatabaseRole_onSchemaObject_allInDatabase\<close>, and the
  identifier that \<open>CreateGrantPrivilegesToDatabaseRole\<close> builds for it.
\<close>

definition dAllTablesInDatabase :: ResourceData where
  "dAllTablesInDatabase =
     \<lparr>Id = [], privileges_old = [], privileges = [''SELECT''], all_privileges = False,
      on_database = False, on_schema = [],
      on_schema_object =
        [TFMap [(''object_type'', TFString []), (''object_name'', TFString []),
                (''all'', TFList [TFMap [(''object_type_plural'', TFString ''TABLES''),
                                        (''in_database'', TFBool True),
                                        (''in_schema'', TFString [])]]),
                (''future'', TFList [])]],
      role_name = ''R1'', database_name = ''DB1'', with_grant_option = False\<rparr>"

definition idAllTablesInDatabase :: GrantPrivilegesToDatabaseRoleID where
  "idAllTablesInDatabase =
     \<lparr>RoleName = ''R1'', DatabaseName = ''DB1'', Privileges = [''SELECT''],
      AllPrivileges = False, WithGrantOption = False, OnDatabase = False, OnSchema = False,
      OnSchemaObject = True, AllFlag = True, Future = False, ObjectType = [],
      ObjectName = [], ObjectTypePlural = ''TABLES'', InSchema = False, SchemaName = [],
      InDatabase = True\<rparr>"

text \<open>A remote system that accepts every statement and lists and shows nothing.\<close>

definition quietRemote :: remote where
  "quietRemote =
     \<lparr>status_of = (\<lambda>tr c. None), names_of = (\<lambda>tr c. []), grants_of = (\<lambda>tr c. Inr [])\<rparr>"

definition someEnvironment :: environment where
  "someEnvironment =
     \<lparr>ObjectTypeDatabase = ''DATABASE'', ObjectTypeSchema = ''SCHEMA'', Singular = butlast,
      snowflake_Contains = (\<lambda>xs x. x \<in> set xs)\<rparr>"

text \<open>
  The scenario of the spec: role \<open>R1\<close> in database \<open>DB1\<close> with \<open>MONITOR USAGE\<close>
  on the database; its identifier, and the resource data after its creation.
\<close>

definition idOnDatabase :: GrantPrivilegesToDatabaseRoleID where
  "idOnDatabase =
     emptyID\<lparr>RoleName := ''R1'', DatabaseName := ''DB1'', Privileges := [''MONITOR USAGE''],
             OnDatabase := True\<rparr>"

definition dOnDatabase :: ResourceData where
  "dOnDatabase =
     \<lparr>Id = ''R1|DB1|MONITOR USAGE|false|false|true|false|false|false|false||||false|'',
      privileges_old = [''MONITOR USAGE''], privileges = [''MONITOR USAGE''],
      all_privileges = False, on_database = True, on_schema = [], on_schema_object = [],
      role_name = ''R1'', database_name = ''DB1'', with_grant_option = False\<rparr>"

text \<open>
  A remote system that accepts every statement and shows two grants on the
  database to the role \<open>R1\<close>: \<open>MONITOR USAGE\<close>, and \<open>MANAGE GRANTS\<close>, which
  somebody granted outside of the resource.
\<close>

definition grantRow :: "string \<Rightarrow> string \<Rightarrow> string \<Rightarrow> Grant" where
  "grantRow privilege grantedOn grantOn =
     \<lparr>Privilege = privilege, GrantOption = False, GranteeName = ''R1'', GrantedBy = ''ADMIN'',
      GrantedOn = grantedOn, GrantOn = grantOn\<rparr>"

definition showingRemote :: remote where
  "showingRemote =
     \<lparr>status_of = (\<lambda>tr c. None), names_of = (\<lambda>tr c. []),
      grants_of = (\<lambda>tr c. Inr [grantRow ''MONITOR USAGE'' ''DATABASE'' [],
                               grantRow ''MANAGE GRANTS'' ''DATABASE'' []])\<rparr>"

text \<open>
  A resource with \<open>all_privileges = true\<close> on a schema: its identifier and its
  resource data.
\<close>

definition idAllPrivileges :: GrantPrivilegesToDatabaseRoleID where
  "idAllPrivileges =
     emptyID\<lparr>RoleName := ''R1'', DatabaseName := ''DB1'', AllPrivileges := True,
             OnSchema := True, SchemaName := ''S1''\<rparr>"

definition dAllPrivileges :: ResourceData where
  "dAllPrivileges =
     \<lparr>Id = ''R1|DB1||true|false|false|true|false|false|false||||false|S1'',
      privileges_old = [], privileges = [], all_privileges = True, on_database = False,
      on_schema = [TFMap [(''schema_name'', TFString ''S1''), (''all_schemas'', TFBool False),
                          (''future_schemas'', TFBool False)]],
      on_schema_object = [], role_name = ''R1'', database_name = ''DB1'',
      with_grant_option = False\<rparr>"

text \<open>
  The condition of claim C5 in the words of the spec: the privilege is in the
  stored set, the grant option is the configured one, the grantee is the role, a
  grant of an identity that is not a future grant has a granted-by, and the object
  type of the row (\<open>grantedOn\<close>, or \<open>grantOn\<close> for a future grant) is the resolved
  one.
\<close>

definition attributed_as_claimed ::
  "string \<Rightarrow> GrantPrivilegesToDatabaseRoleID \<Rightarrow> bool \<Rightarrow> string \<Rightarrow> Grant \<Rightarrow> bool" where
  "attributed_as_claimed grantedOn ident withGrantOption roleName grant =
     (Privilege grant \<in> set (Privileges ident) \<and> GrantOption grant = withGrantOption \<and>
      GranteeName grant = roleName \<and> (\<not> Future ident \<longrightarrow> GrantedBy grant \<noteq> []) \<and>
      (if Future ident then GrantOn grant = grantedOn else GrantedOn grant = grantedOn))"

text \<open>
  An identifier on a schema object that names no object and is neither for all
  nor for future objects (an imported identifier can be any string of fifteen
  fields): the read resolves no object type for it.
\<close>

definition dNoObject :: ResourceData where
  "dNoObject =
     \<lparr>Id = ''R1|DB1|SELECT|false|false|false|false|true|false|false||||false|'',
      privileges_old = [''SELECT''], privileges = [''SELECT''], all_privileges = False,
      on_database = False, on_schema = [], on_schema_object = [], role_name = ''R1'',
      database_name = ''DB1'', with_grant_option = False\<rparr>"

definition tableRemote :: remote where
  "tableRemote =
     \<lparr>status_of = (\<lambda>tr c. None), names_of = (\<lambda>tr c. []),
      grants_of = (\<lambda>tr c. Inr [grantRow ''SELECT'' ''TABLE'' []])\<rparr>"



text \<open>
  The update of the scenario in which \<open>MONITOR USAGE\<close> is replaced by
  \<open>MANAGE GRANTS\<close>.
\<close>

definition dSwap :: ResourceData where
  "dSwap = dOnDatabase\<lparr>privileges := [''MANAGE GRANTS'']\<rparr>"

text \<open>
  The number of top-level target branches that a configuration populates, as the
  guards of the target resolution see them, and the number of targets that are
  set in a \<open>DatabaseRoleGrantOn\<close>.
\<close>

definition populated_branches :: "ResourceData \<Rightarrow> nat" where
  "populated_branches d =
     (if on_database d then 1 else 0) + (if on_schema d \<noteq> [] then 1 else 0) +
     (if on_schema_object d \<noteq> [] then 1 else 0)"

definition targets :: "DatabaseRoleGrantOn \<Rightarrow> nat" where
  "targets on =
     (if on_Database on \<noteq> None then 1 else 0) + (if on_Schema on \<noteq> None then 1 else 0) +
     (if on_SchemaObject on \<noteq> None then 1 else 0)"

text \<open>
  A block that is not empty and holds values of the declared types: the element
  of the list is a map (the element of a block written without attributes is
  \<open>nil\<close>, and such a block does not satisfy the predicates); an attribute that is
  present has the type the schema declares (\<open>schema_name\<close>, \<open>object_type\<close>,
  \<open>object_name\<close>, \<open>in_schema\<close> and \<open>object_type_plural\<close> strings,
  \<open>all_schemas\<close>, \<open>future_schemas\<close> and \<open>in_database\<close> booleans, \<open>all\<close> and
  \<open>future\<close> lists of one such map); \<open>object_type_plural\<close> is present; and
  \<open>object_name\<close> is only set together with \<open>object_type\<close> (\<open>RequiredWith\<close>).
\<close>

definition typed_string :: "(string \<times> tfvalue) list \<Rightarrow> string \<Rightarrow> bool" where
  "typed_string m k = (case map_of m k of None \<Rightarrow> True | Some v \<Rightarrow> as_string v \<noteq> None)"

definition typed_bool :: "(string \<times> tfvalue) list \<Rightarrow> string \<Rightarrow> bool" where
  "typed_bool m k = (case map_of m k of None \<Rightarrow> True | Some v \<Rightarrow> as_bool v \<noteq> None)"

definition well_typed_on_schema :: "tfvalue \<Rightarrow> bool" where
  "well_typed_on_schema v =
     (case as_map v of
        None \<Rightarrow> False
      | Some m \<Rightarrow>
          typed_string m ''schema_name'' \<and> typed_bool m ''all_schemas'' \<and>
          typed_bool m ''future_schemas'')"

definition well_typed_in :: "tfvalue \<Rightarrow> bool" where
  "well_typed_in v =
     (case as_map v of
        None \<Rightarrow> False
      | Some m \<Rightarrow>
          (case map_of m ''object_type_plural'' of
             None \<Rightarrow> False
           | Some p \<Rightarrow> as_string p \<noteq> None) \<and>
          typed_bool m ''in_database'' \<and> typed_string m ''in_schema'')"

definition typed_block :: "(string \<times> tfvalue) list \<Rightarrow> string \<Rightarrow> bool" where
  "typed_block m k =
     (case map_of m k of
        None \<Rightarrow> True
      | Some v \<Rightarrow>
          (case as_list v of
             None \<Rightarrow> False
           | Some [] \<Rightarrow> True
           | Some (b # bs) \<Rightarrow> well_typed_in b))"

definition well_typed_on_schema_object :: "tfvalue \<Rightarrow> bool" where
  "well_typed_on_schema_object v =
     (case as_map v of
        None \<Rightarrow> False
      | Some m \<Rightarrow>
          typed_string m ''object_type'' \<and> typed_string m ''object_name'' \<and>
          (nonempty_string_at m ''object_type'' = Some None \<longrightarrow>
             nonempty_string_at m ''object_name'' = Some None) \<and>
          typed_block m ''all'' \<and> typed_block m ''future'')"

definition well_typed :: "ResourceData \<Rightarrow> bool" where
  "well_typed d =
     ((on_schema d \<noteq> [] \<longrightarrow> well_typed_on_schema (on_schema d ! 0)) \<and>
      (on_schema_object d \<noteq> [] \<longrightarrow> well_typed_on_schema_object (on_schema_object d ! 0)))"

text \<open>
  Two configurations with one populated branch each, a block written without
  attributes: \<open>on_schema {}\<close> and \<open>on_schema_object {}\<close>. Every attribute of the
  two blocks is optional in the schema of the resource.
\<close>

definition dEmptySchemaBlock :: ResourceData where
  "dEmptySchemaBlock =
     \<lparr>Id = [], privileges_old = [], privileges = [''USAGE''], all_privileges = False,
      on_database = False, on_schema = [TFNil], on_schema_object = [], role_name = ''R1'',
      database_name = ''DB1'', with_grant_option = False\<rparr>"

definition dEmptySchemaObjectBlock :: ResourceData where
  "dEmptySchemaObjectBlock =
     \<lparr>Id = [], privileges_old = [], privileges = [''SELECT''], all_privileges = False,
      on_database = False, on_schema = [], on_schema_object = [TFNil], role_name = ''R1'',
      database_name = ''DB1'', with_grant_option = False\<rparr>"

section \<open>Properties of the identifier\<close>

lemma length_strings_Split:
  "length (strings_Split s sep) = Suc (count_list s sep)"
  by (induction s) (auto split: list.splits)

lemma strings_Split_not_Nil: "strings_Split s sep \<noteq> []"
  by (induction s) (auto split: list.splits)

lemma strings_Split_no_sep: "sep \<notin> set x \<Longrightarrow> strings_Split x sep = [x]"
  by (induction x) auto

lemma strings_Split_append_sep:
  "sep \<notin> set x \<Longrightarrow> strings_Split (x @ sep # rest) sep = x # strings_Split rest sep"
  by (induction x) auto

lemma strings_Split_Join:
  "xs \<noteq> [] \<Longrightarrow> \<forall>x\<in>set xs. sep \<notin> set x \<Longrightarrow>
   strings_Split (strings_Join xs [sep]) sep = xs"
  by (induction xs "[sep]" rule: strings_Join.induct)
     (auto simp: strings_Split_no_sep strings_Split_append_sep)

lemma set_strings_Join:
  "set (strings_Join xs sep) \<subseteq> (\<Union>x\<in>set xs. set x) \<union> set sep"
  by (induction xs sep rule: strings_Join.induct) auto

lemma FormatBool_eq_true [simp]: "(FormatBool b = ''true'') = b"
  by (simp add: FormatBool_def)

lemma FormatBool_no_pipe [simp]: "CHR ''|'' \<notin> set (FormatBool b)"
  by (simp add: FormatBool_def)

lemma strings_Join_privileges_no_pipe:
  "list_all (\<lambda>p. CHR ''|'' \<notin> set p \<and> CHR '','' \<notin> set p) ps \<Longrightarrow>
   CHR ''|'' \<notin> set (strings_Join ps '','')"
  using set_strings_Join [of ps "'',''"] by (auto simp: list_all_iff)

text \<open>
  Splitting the joined privileges at the commas and mapping the single empty
  segment to the empty list, as the decoder does, gives the privileges back.
\<close>

lemma privileges_roundtrip:
  assumes "list_all (\<lambda>p. CHR ''|'' \<notin> set p \<and> CHR '','' \<notin> set p) ps" and "ps \<noteq> [[]]"
  shows "(let privileges = strings_Split (strings_Join ps '','') (CHR '','') in
          if length privileges = 1 \<and> privileges ! 0 = [] then [] else privileges) = ps"
proof (cases "ps = []")
  case True
  then show ?thesis by simp
next
  case False
  with assms have "strings_Split (strings_Join ps '','') (CHR '','') = ps"
    using strings_Split_Join [of ps "CHR '',''"] by (simp add: list_all_iff)
  moreover have "\<not> (length ps = 1 \<and> ps ! 0 = [])"
    using assms(2) by (cases ps) auto
  ultimately show ?thesis by (auto simp: Let_def)
qed

lemma String_fields: "String v = strings_Join (fields v) ''|''"
  by (simp add: String_def EncodeSnowflakeID_def fields_def)

lemma strings_Split_String:
  assumes "validID v"
  shows "strings_Split (String v) (CHR ''|'') = fields v"
  unfolding String_fields
proof (rule strings_Split_Join)
  show "fields v \<noteq> []" by (simp add: fields_def)
  show "\<forall>x\<in>set (fields v). CHR ''|'' \<notin> set x"
    using assms strings_Join_privileges_no_pipe [of "Privileges v"]
    by (simp add: validID_def fields_def)
qed

text \<open>
  Decoding an encoded valid identifier gives every field back but \<open>InDatabase\<close>,
  which is always false after decoding.
\<close>

lemma decode_String:
  assumes "validID v"
  shows "NewGrantPrivilegesToDatabaseRoleID (String v) = Some (v\<lparr>InDatabase := False\<rparr>)"
proof -
  have "(let privileges = strings_Split (strings_Join (Privileges v) '','') (CHR '','') in
         if length privileges = 1 \<and> privileges ! 0 = [] then [] else privileges) = Privileges v"
    using assms privileges_roundtrip by (simp add: validID_def)
  then show ?thesis
    unfolding NewGrantPrivilegesToDatabaseRoleID_def strings_Split_String [OF assms]
    by (simp add: index_def Let_def fields_def)
qed

lemma decode_InDatabase:
  "NewGrantPrivilegesToDatabaseRoleID s = Some v \<Longrightarrow> \<not> InDatabase v"
  by (auto simp: NewGrantPrivilegesToDatabaseRoleID_def Let_def split: bind_splits)

lemma validID_idAllTablesInDatabase: "validID idAllTablesInDatabase"
  by (simp add: validID_def idAllTablesInDatabase_def)

text \<open>
  The identifier \<open>idAllTablesInDatabase\<close> is the one that the creation of the
  resource encodes for the configuration \<open>dAllTablesInDatabase\<close>.
\<close>

lemma Create_encodes_idAllTablesInDatabase:
  "CreateGrantPrivilegesToDatabaseRole someEnvironment quietRemote dAllTablesInDatabase [] =
     (Some (None, dAllTablesInDatabase\<lparr>Id := String idAllTablesInDatabase\<rparr>),
      [GrantPrivilegesToDatabaseRole
         (Some (emptyDatabaseRoleGrantPrivileges\<lparr>SchemaObjectPrivileges := [''SELECT'']\<rparr>))
         (emptyDatabaseRoleGrantOn\<lparr>on_SchemaObject :=
            Some (emptyGrantOnSchemaObject\<lparr>gso_All :=
              Some \<lparr>PluralObjectType = ''TABLES'',
                    goi_InDatabase =
                      Some (NewAccountObjectIdentifierFromFullyQualifiedName ''DB1''),
                    goi_InSchema = None\<rparr>\<rparr>)\<rparr>)
         (NewDatabaseObjectIdentifier ''DB1'' ''R1'') (Some False)])"
proof -
  have c: "configureDatabaseRoleGrantPrivilegeOptions dAllTablesInDatabase [''SELECT''] False
             (emptyID\<lparr>Privileges := [''SELECT''], AllPrivileges := False,
                      DatabaseName := ''DB1''\<rparr>) =
           Some (Inr (Some (emptyDatabaseRoleGrantPrivileges\<lparr>SchemaObjectPrivileges := [''SELECT'']\<rparr>),
                      emptyDatabaseRoleGrantOn\<lparr>on_SchemaObject :=
                        Some (emptyGrantOnSchemaObject\<lparr>gso_All :=
                          Some \<lparr>PluralObjectType = ''TABLES'',
                                goi_InDatabase =
                                  Some (NewAccountObjectIdentifierFromFullyQualifiedName ''DB1''),
                                goi_InSchema = None\<rparr>\<rparr>)\<rparr>,
                      idAllTablesInDatabase\<lparr>RoleName := []\<rparr>))"
    by (simp add: configureDatabaseRoleGrantPrivilegeOptions_def configureOnSchemaObject_def
        configureIn_def dAllTablesInDatabase_def nonempty_string_at_def nonempty_list_at_def
        true_at_def setDatabaseRolePrivilegeOptions_def emptyID_def idAllTablesInDatabase_def)
  have r: "ReadGrantPrivilegesToDatabaseRole someEnvironment quietRemote
             (dAllTablesInDatabase\<lparr>Id := String idAllTablesInDatabase\<rparr>) tr =
           (Some (None, dAllTablesInDatabase\<lparr>Id := String idAllTablesInDatabase\<rparr>), tr)" for tr
    by (simp add: ReadGrantPrivilegesToDatabaseRole_def
        decode_String [OF validID_idAllTablesInDatabase] readOnDatabase_def readOnSchema_def
        readOnSchemaObject_def)
       (simp add: idAllTablesInDatabase_def)
  have i: "idAllTablesInDatabase\<lparr>RoleName := [], WithGrantOption := False, RoleName := ''R1''\<rparr> =
           idAllTablesInDatabase"
    by (simp add: idAllTablesInDatabase_def)
  show ?thesis
    unfolding CreateGrantPrivilegesToDatabaseRole_def
    using c r i
    by (simp add: dAllTablesInDatabase_def quietRemote_def Let_def)
qed

text \<open>
  Claim C1. The claim: for every valid identifier \<open>x\<close>, with any combination of
  the target flags and \<open>InDatabase\<close> among them, decoding the encoded string gives
  \<open>x\<close> back in every field. At the identifier of \<open>all { object_type_plural =
  "TABLES", in_database = true }\<close> the code gives back an identifier whose
  \<open>InDatabase\<close> is false, not the identifier that was encoded; and no string at all
  decodes to that identifier, whatever the encoder writes.
\<close>

theorem C1_decode_String_loses_InDatabase:
  "NewGrantPrivilegesToDatabaseRoleID (String idAllTablesInDatabase) =
     Some (idAllTablesInDatabase\<lparr>InDatabase := False\<rparr>) \<and>
   NewGrantPrivilegesToDatabaseRoleID (String idAllTablesInDatabase) \<noteq>
     Some idAllTablesInDatabase \<and>
   (\<forall>s. NewGrantPrivilegesToDatabaseRoleID s \<noteq> Some idAllTablesInDatabase)"
proof -
  have "InDatabase idAllTablesInDatabase"
    by (simp add: idAllTablesInDatabase_def)
  then have no: "\<forall>s. NewGrantPrivilegesToDatabaseRoleID s \<noteq> Some idAllTablesInDatabase"
    using decode_InDatabase by blast
  then have "NewGrantPrivilegesToDatabaseRoleID (String idAllTablesInDatabase) \<noteq>
      Some idAllTablesInDatabase"
    by blast
  with no show ?thesis
    using decode_String [OF validID_idAllTablesInDatabase] by blast
qed

text \<open>
  Claim C6. The encoded identifier is the fifteen fields role name, database name,
  comma-joined privileges, all-privileges flag, with-grant-option flag, on-database
  flag, on-schema flag, on-schema-object flag, all flag, future flag, object type,
  object name, plural object type, in-schema flag and schema name, in this order
  with a pipe between two neighbours; each flag is the text \<open>true\<close> or the text
  \<open>false\<close>; and when no field holds a pipe, splitting the string at the pipes gives
  exactly these fifteen fields.
\<close>

theorem C6_String_format:
  "String v =
     RoleName v @ ''|'' @ DatabaseName v @ ''|'' @ strings_Join (Privileges v) '','' @ ''|'' @
     FormatBool (AllPrivileges v) @ ''|'' @ FormatBool (WithGrantOption v) @ ''|'' @
     FormatBool (OnDatabase v) @ ''|'' @ FormatBool (OnSchema v) @ ''|'' @
     FormatBool (OnSchemaObject v) @ ''|'' @ FormatBool (AllFlag v) @ ''|'' @
     FormatBool (Future v) @ ''|'' @ ObjectType v @ ''|'' @ ObjectName v @ ''|'' @
     ObjectTypePlural v @ ''|'' @ FormatBool (InSchema v) @ ''|'' @ SchemaName v \<and>
   FormatBool True = ''true'' \<and> FormatBool False = ''false'' \<and>
   (validID v \<longrightarrow>
      strings_Split (String v) (CHR ''|'') =
        [RoleName v, DatabaseName v, strings_Join (Privileges v) '','',
         FormatBool (AllPrivileges v), FormatBool (WithGrantOption v),
         FormatBool (OnDatabase v), FormatBool (OnSchema v), FormatBool (OnSchemaObject v),
         FormatBool (AllFlag v), FormatBool (Future v), ObjectType v, ObjectName v,
         ObjectTypePlural v, FormatBool (InSchema v), SchemaName v])"
proof -
  have "validID v \<longrightarrow> strings_Split (String v) (CHR ''|'') = fields v"
    using strings_Split_String by blast
  then show ?thesis
    by (simp add: String_def EncodeSnowflakeID_def FormatBool_def fields_def)
qed

theorem C6_String_format_witness:
  "validID idAllTablesInDatabase \<and>
   String idAllTablesInDatabase =
     ''R1|DB1|SELECT|false|false|false|false|true|true|false|||TABLES|false|'' \<and>
   strings_Split (String idAllTablesInDatabase) (CHR ''|'') =
     [''R1'', ''DB1'', ''SELECT'', ''false'', ''false'', ''false'', ''false'', ''true'',
      ''true'', ''false'', [], [], ''TABLES'', ''false'', []]"
  using C6_String_format [of idAllTablesInDatabase] validID_idAllTablesInDatabase
  by (simp add: idAllTablesInDatabase_def FormatBool_def)

text \<open>
  Claim C10. The decoder reads the segments 0 to 14 of its input without a check
  of their number. On an input with at least 14 pipes every read is in bounds and
  the decoder returns an identifier; on an input with fewer pipes the read of
  segment 14 is out of bounds and the decoder panics. It is not total.
\<close>

theorem C10_decoder_partial:
  "(14 \<le> count_list s (CHR ''|'') \<longrightarrow>
      (\<exists>v. NewGrantPrivilegesToDatabaseRoleID s = Some v) \<and>
      list_all (\<lambda>i. index (strings_Split s (CHR ''|'')) i \<noteq> None) [0..<15]) \<and>
   (count_list s (CHR ''|'') < 14 \<longrightarrow>
      NewGrantPrivilegesToDatabaseRoleID s = None \<and>
      index (strings_Split s (CHR ''|'')) 14 = None)"
  by (simp add: NewGrantPrivilegesToDatabaseRoleID_def Let_def index_def length_strings_Split
      strings_Split_not_Nil list_all_iff)

text \<open>
  An identifier of the older format of the database role grants has six pipes;
  an identifier of the current format has fourteen.
\<close>

theorem C10_decoder_partial_witness:
  "count_list ''db_name|good_name||||role1,role2|false'' (CHR ''|'') < 14 \<and>
   NewGrantPrivilegesToDatabaseRoleID ''db_name|good_name||||role1,role2|false'' = None \<and>
   14 \<le> count_list ''R1|DB1|SELECT|false|false|true|false|false|false|false||||false|''
          (CHR ''|'') \<and>
   (\<exists>v. NewGrantPrivilegesToDatabaseRoleID
           ''R1|DB1|SELECT|false|false|true|false|false|false|false||||false|'' = Some v)"
  using C10_decoder_partial [of "''db_name|good_name||||role1,role2|false''"]
    C10_decoder_partial [of "''R1|DB1|SELECT|false|false|true|false|false|false|false||||false|''"]
  by simp

section \<open>Properties of the delta and of the read\<close>

text \<open>
  Claim C2. For every pair of privilege lists, the privileges to add are, as a
  set, the new ones without the old ones, and the privileges to remove the old
  ones without the new ones; the two sets are disjoint; removing the one from the
  old set and adding the other gives the new set; and both depend on the sets
  only, not on the order of the lists.
\<close>

theorem C2_delta:
  "set (addPrivileges old new) = set new - set old \<and>
   set (removePrivileges old new) = set old - set new \<and>
   set (addPrivileges old new) \<inter> set (removePrivileges old new) = {} \<and>
   (set old - set (removePrivileges old new)) \<union> set (addPrivileges old new) = set new \<and>
   (set old' = set old \<and> set new' = set new \<longrightarrow>
      set (addPrivileges old' new') = set (addPrivileges old new) \<and>
      set (removePrivileges old' new') = set (removePrivileges old new))"
  by (auto simp: addPrivileges_def removePrivileges_def slices_Contains_def)

theorem C2_delta_witness:
  "set [''USAGE'', ''MONITOR''] = set [''MONITOR'', ''USAGE''] \<and>
   set [''CREATE TABLE'', ''USAGE''] = set [''USAGE'', ''CREATE TABLE''] \<and>
   set (addPrivileges [''USAGE'', ''MONITOR''] [''CREATE TABLE'', ''USAGE'']) =
     set (addPrivileges [''MONITOR'', ''USAGE''] [''USAGE'', ''CREATE TABLE'']) \<and>
   set (removePrivileges [''USAGE'', ''MONITOR''] [''CREATE TABLE'', ''USAGE'']) =
     set (removePrivileges [''MONITOR'', ''USAGE''] [''USAGE'', ''CREATE TABLE'']) \<and>
   addPrivileges [''MONITOR'', ''USAGE''] [''USAGE'', ''CREATE TABLE''] = [''CREATE TABLE''] \<and>
   removePrivileges [''MONITOR'', ''USAGE''] [''USAGE'', ''CREATE TABLE''] = [''MONITOR'']"
  using C2_delta [of "[''MONITOR'', ''USAGE'']" "[''USAGE'', ''CREATE TABLE'']"
      "[''USAGE'', ''MONITOR'']" "[''CREATE TABLE'', ''USAGE'']"]
  by (simp add: addPrivileges_def removePrivileges_def slices_Contains_def insert_commute)

text \<open>
  The loop of the read appends the privileges of the rows that pass its tests, in
  the order of the rows.
\<close>

lemma attributedPrivileges_filter:
  "attributedPrivileges grantedOn ident w r grants privs =
     privs @ map Privilege (filter (\<lambda>grant.
        Privilege grant \<in> set (Privileges ident) \<and> GrantOption grant = w \<and>
        GranteeName grant = r \<and> (\<not> Future ident \<longrightarrow> GrantedBy grant \<noteq> []) \<and>
        (grantedOn = GrantedOn grant \<or> grantedOn = GrantOn grant)) grants)"
  by (induction grants arbitrary: privs) (auto simp: slices_Contains_def)

lemma String_idOnDatabase: "String idOnDatabase = Id dOnDatabase"
  by (simp add: String_def EncodeSnowflakeID_def idOnDatabase_def dOnDatabase_def emptyID_def
      FormatBool_def)

lemma decode_dOnDatabase: "NewGrantPrivilegesToDatabaseRoleID (Id dOnDatabase) = Some idOnDatabase"
proof -
  have "validID idOnDatabase"
    by (simp add: validID_def idOnDatabase_def emptyID_def)
  then have "NewGrantPrivilegesToDatabaseRoleID (String idOnDatabase) =
      Some (idOnDatabase\<lparr>InDatabase := False\<rparr>)"
    by (rule decode_String)
  then show ?thesis
    by (simp add: String_idOnDatabase) (simp add: idOnDatabase_def emptyID_def)
qed

text \<open>
  Claim C4. The privileges that the read writes to the resource data are among
  the privileges of the stored identifier, whatever rows the remote system shows:
  the loop of the read only collects such privileges, and
  \<open>ReadGrantPrivilegesToDatabaseRole\<close> either leaves the resource data as it is or
  sets \<open>privileges\<close> to a list of privileges of the decoded identifier.
\<close>

theorem C4_read_reports_stored_privileges_only:
  "set (attributedPrivileges grantedOn ident w r grants []) \<subseteq> set (Privileges ident) \<and>
   (NewGrantPrivilegesToDatabaseRoleID (Id d) = Some ident \<and>
    ReadGrantPrivilegesToDatabaseRole env R d tr = (Some (err, d'), tr') \<longrightarrow>
      d' = d \<or>
      (d' = d\<lparr>privileges := privileges d'\<rparr> \<and> set (privileges d') \<subseteq> set (Privileges ident)))"
proof -
  have sub: "set (attributedPrivileges g ident w' r' gs []) \<subseteq> set (Privileges ident)"
    for g w' r' gs
    by (auto simp: attributedPrivileges_filter)
  have "d' = d \<or>
      (d' = d\<lparr>privileges := privileges d'\<rparr> \<and> set (privileges d') \<subseteq> set (Privileges ident))"
    if dec: "NewGrantPrivilegesToDatabaseRoleID (Id d) = Some ident"
      and rd: "ReadGrantPrivilegesToDatabaseRole env R d tr = (Some (err, d'), tr')"
  proof -
    have "d' = d \<or>
        (\<exists>g gs. d' = d\<lparr>privileges :=
           attributedPrivileges g ident (with_grant_option d) (role_name d) gs []\<rparr>)"
      using rd dec
      by (auto simp: ReadGrantPrivilegesToDatabaseRole_def readDatabaseRoleGrantPrivileges_def
          split: if_splits early.splits prod.splits sum.splits)
    then consider "d' = d"
      | g gs where "d' = d\<lparr>privileges :=
           attributedPrivileges g ident (with_grant_option d) (role_name d) gs []\<rparr>"
      by blast
    then show ?thesis
    proof cases
      case 1
      then show ?thesis by simp
    next
      case 2
      then have "privileges d' =
          attributedPrivileges g ident (with_grant_option d) (role_name d) gs []"
        by simp
      with sub [of g "with_grant_option d" "role_name d" gs] 2 show ?thesis
        by simp
    qed
  qed
  with sub show ?thesis by blast
qed

theorem C4_read_reports_stored_privileges_only_witness:
  "NewGrantPrivilegesToDatabaseRoleID (Id dOnDatabase) = Some idOnDatabase \<and>
   fst (ReadGrantPrivilegesToDatabaseRole someEnvironment showingRemote dOnDatabase []) =
     Some (None, dOnDatabase\<lparr>privileges := [''MONITOR USAGE'']\<rparr>) \<and>
   set [''MONITOR USAGE''] \<subseteq> set (Privileges idOnDatabase) \<and>
   ''MANAGE GRANTS'' \<notin> set (Privileges idOnDatabase)"
proof -
  have rd: "ReadGrantPrivilegesToDatabaseRole someEnvironment showingRemote dOnDatabase [] =
      (Some (None, dOnDatabase\<lparr>privileges := [''MONITOR USAGE'']\<rparr>),
       [Show (emptyShowGrantOptions\<lparr>show_On :=
          Some \<lparr>obj_ObjectType = ''DATABASE'',
                obj_Name = Some (NewAccountObjectIdentifierFromFullyQualifiedName ''DB1'')\<rparr>\<rparr>)])"
    by (simp add: ReadGrantPrivilegesToDatabaseRole_def decode_dOnDatabase readOnDatabase_def
        readOnSchema_def readOnSchemaObject_def readDatabaseRoleGrantPrivileges_def)
       (simp add: idOnDatabase_def emptyID_def someEnvironment_def showingRemote_def
        grantRow_def slices_Contains_def dOnDatabase_def)
  show ?thesis
    using C4_read_reports_stored_privileges_only
      [of "''DATABASE''" idOnDatabase False "''R1''" "[]" dOnDatabase someEnvironment
        showingRemote "[]" None "dOnDatabase\<lparr>privileges := [''MONITOR USAGE'']\<rparr>"]
      decode_dOnDatabase rd
    by (simp add: idOnDatabase_def emptyID_def)
qed

text \<open>
  Claim C5, as the code has it. The read attributes the privilege of a row to the
  identity exactly when the privilege is in the stored privilege set, the grant
  option of the row is the configured \<open>with_grant_option\<close>, the grantee name is
  the role name, the granted-by of the row is not empty unless the identity is a
  future grant, and the resolved object type is the \<open>grantedOn\<close> or the \<open>grantOn\<close>
  of the row, whichever of the two, for future and other identities alike. The
  privileges written by \<open>readDatabaseRoleGrantPrivileges\<close> are those of the rows
  with this property, in the order of the rows.
\<close>

theorem C5_attribution:
  "attributedPrivileges grantedOn ident withGrantOption roleName grants [] =
     map Privilege (filter (\<lambda>grant.
        Privilege grant \<in> set (Privileges ident) \<and> GrantOption grant = withGrantOption \<and>
        GranteeName grant = roleName \<and> (\<not> Future ident \<longrightarrow> GrantedBy grant \<noteq> []) \<and>
        (grantedOn = GrantedOn grant \<or> grantedOn = GrantOn grant)) grants) \<and>
   (grants_of R tr (Show opts) = Inr grants \<longrightarrow>
      readDatabaseRoleGrantPrivileges R grantedOn ident opts d tr =
        ((None,
          d\<lparr>privileges := map Privilege (filter (\<lambda>grant.
              Privilege grant \<in> set (Privileges ident) \<and>
              GrantOption grant = with_grant_option d \<and>
              GranteeName grant = role_name d \<and> (\<not> Future ident \<longrightarrow> GrantedBy grant \<noteq> []) \<and>
              (grantedOn = GrantedOn grant \<or> grantedOn = GrantOn grant)) grants)\<rparr>),
         tr @ [Show opts]))"
  by (simp add: attributedPrivileges_filter readDatabaseRoleGrantPrivileges_def)

theorem C5_attribution_witness:
  "grants_of showingRemote [] (Show emptyShowGrantOptions) =
     Inr [grantRow ''MONITOR USAGE'' ''DATABASE'' [], grantRow ''MANAGE GRANTS'' ''DATABASE'' []] \<and>
   readDatabaseRoleGrantPrivileges showingRemote ''DATABASE'' idOnDatabase emptyShowGrantOptions
       dOnDatabase [] =
     ((None, dOnDatabase\<lparr>privileges := [''MONITOR USAGE'']\<rparr>), [Show emptyShowGrantOptions]) \<and>
   attributedPrivileges ''SCHEMA'' idOnDatabase False ''R1''
       [grantRow ''MONITOR USAGE'' ''DATABASE'' []] [] = []"
  using C5_attribution [of "''DATABASE''" idOnDatabase False "''R1''"
      "[grantRow ''MONITOR USAGE'' ''DATABASE'' [], grantRow ''MANAGE GRANTS'' ''DATABASE'' []]"
      showingRemote "[]" emptyShowGrantOptions dOnDatabase]
    C5_attribution [of "''SCHEMA''" idOnDatabase False "''R1''"
      "[grantRow ''MONITOR USAGE'' ''DATABASE'' []]" showingRemote "[]" emptyShowGrantOptions
      dOnDatabase]
  by (simp add: showingRemote_def grantRow_def idOnDatabase_def emptyID_def dOnDatabase_def)

text \<open>
  Claim C5, as it is stated, asks of an identity that is not a future grant that
  the \<open>grantedOn\<close> of the row be the resolved object type. The code also takes
  the row when only its \<open>grantOn\<close> is: for the identifier of \<open>dNoObject\<close> the read
  resolves the empty object type, and a row granted on a \<open>TABLE\<close>, whose \<open>grantOn\<close>
  is empty as in every row of a listing of current grants, is attributed.
\<close>

theorem C5_as_stated_counterexample:
  "fst (ReadGrantPrivilegesToDatabaseRole someEnvironment tableRemote
          (dNoObject\<lparr>privileges := []\<rparr>) []) =
     Some (None, dNoObject\<lparr>privileges := [''SELECT'']\<rparr>) \<and>
   attributedPrivileges [] (the (NewGrantPrivilegesToDatabaseRoleID (Id dNoObject))) False ''R1''
       [grantRow ''SELECT'' ''TABLE'' []] [] = [''SELECT''] \<and>
   \<not> attributed_as_claimed [] (the (NewGrantPrivilegesToDatabaseRoleID (Id dNoObject))) False
       ''R1'' (grantRow ''SELECT'' ''TABLE'' [])"
proof -
  let ?i = "emptyID\<lparr>RoleName := ''R1'', DatabaseName := ''DB1'', Privileges := [''SELECT''],
                      OnSchemaObject := True\<rparr>"
  have s: "Id dNoObject = String ?i"
    by (simp add: String_def EncodeSnowflakeID_def dNoObject_def emptyID_def FormatBool_def)
  have v: "validID ?i"
    by (simp add: validID_def emptyID_def)
  have "NewGrantPrivilegesToDatabaseRoleID (String ?i) = Some (?i\<lparr>InDatabase := False\<rparr>)"
    using v by (rule decode_String)
  then have dec: "NewGrantPrivilegesToDatabaseRoleID (Id dNoObject) = Some ?i"
    by (simp add: s) (simp add: emptyID_def)
  have a: "attributedPrivileges [] ?i False ''R1'' [grantRow ''SELECT'' ''TABLE'' []] [] =
      [''SELECT'']"
    by (simp add: emptyID_def grantRow_def slices_Contains_def)
  have b: "\<not> attributed_as_claimed [] ?i False ''R1'' (grantRow ''SELECT'' ''TABLE'' [])"
    by (simp add: attributed_as_claimed_def emptyID_def grantRow_def)
  have rd: "ReadGrantPrivilegesToDatabaseRole someEnvironment tableRemote
          (dNoObject\<lparr>privileges := []\<rparr>) [] =
     (Some (None, dNoObject\<lparr>privileges := [''SELECT'']\<rparr>), [Show emptyShowGrantOptions])"
    using dec
    by (simp add: ReadGrantPrivilegesToDatabaseRole_def readOnDatabase_def readOnSchema_def
        readOnSchemaObject_def readDatabaseRoleGrantPrivileges_def)
       (simp add: emptyID_def tableRemote_def dNoObject_def grantRow_def slices_Contains_def)
  show ?thesis
    using a b rd by (simp add: dec)
qed

text \<open>
  Claim C7. When the all-privileges flag of the stored identifier is true, the
  read returns \<open>nil\<close> at once: the trace of remote calls is the one it started
  with, and the resource data, its identifier included, are unchanged.
\<close>

theorem C7_read_all_privileges_noop:
  "NewGrantPrivilegesToDatabaseRoleID (Id d) = Some resourceID \<Longrightarrow> AllPrivileges resourceID \<Longrightarrow>
   ReadGrantPrivilegesToDatabaseRole env R d tr = (Some (None, d), tr)"
  by (simp add: ReadGrantPrivilegesToDatabaseRole_def)

theorem C7_read_all_privileges_noop_witness:
  "NewGrantPrivilegesToDatabaseRoleID (Id dAllPrivileges) = Some idAllPrivileges \<and>
   AllPrivileges idAllPrivileges \<and>
   ReadGrantPrivilegesToDatabaseRole someEnvironment showingRemote dAllPrivileges [] =
     (Some (None, dAllPrivileges), [])"
proof -
  have s: "Id dAllPrivileges = String idAllPrivileges"
    by (simp add: String_def EncodeSnowflakeID_def dAllPrivileges_def idAllPrivileges_def
        emptyID_def FormatBool_def)
  have "validID idAllPrivileges"
    by (simp add: validID_def idAllPrivileges_def emptyID_def)
  then have dec: "NewGrantPrivilegesToDatabaseRoleID (Id dAllPrivileges) = Some idAllPrivileges"
    unfolding s by (simp add: decode_String) (simp add: idAllPrivileges_def emptyID_def)
  have a: "AllPrivileges idAllPrivileges"
    by (simp add: idAllPrivileges_def)
  show ?thesis
    using C7_read_all_privileges_noop [OF dec a, of someEnvironment showingRemote "[]"] dec a
    by simp
qed

section \<open>Properties of granting and revoking a database role\<close>

lemma take_Revoke_sql [simp]:
  "take 7 (Revoke_sql gr) = ''REVOKE ''" "take 6 (Revoke_sql gr) = ''REVOKE''"
  by (simp_all add: Revoke_sql_def)

lemma take_Grant_sql [simp]:
  "take 6 (Grant_sql gr) = ''GRANT ''" "take 7 (Grant_sql gr) = ''GRANT D''"
  by (simp_all add: Grant_sql_def)



section \<open>Properties of the order of statements\<close>

lemma revokes_before_grants_no_revoke:
  "\<not> list_ex is_revoke cs \<Longrightarrow> revokes_before_grants cs"
  by (induction cs) auto

lemma revokes_before_grants_append:
  "\<not> list_ex is_grant xs \<Longrightarrow> \<not> list_ex is_revoke ys \<Longrightarrow> revokes_before_grants (xs @ ys)"
  by (induction xs) (auto simp: revokes_before_grants_no_revoke)

lemma grants_before_revokes_no_grant:
  "\<not> list_ex is_grant cs \<Longrightarrow> grants_before_revokes cs"
  by (induction cs) auto

lemma grants_before_revokes_append:
  "\<not> list_ex is_revoke xs \<Longrightarrow> \<not> list_ex is_grant ys \<Longrightarrow> grants_before_revokes (xs @ ys)"
  by (induction xs) (auto simp: grants_before_revokes_no_grant)

lemma forEach_trace:
  assumes "\<And>u tr. \<exists>new. snd (f u tr) = tr @ new \<and> \<not> list_ex P new"
  shows "\<exists>new. snd (forEach f us tr) = tr @ new \<and> \<not> list_ex P new"
proof (induction us arbitrary: tr)
  case Nil
  then show ?case by simp
next
  case (Cons u us)
  obtain new1 where n1: "snd (f u tr) = tr @ new1" "\<not> list_ex P new1"
    using assms by blast
  obtain new2 where n2: "snd (forEach f us (tr @ new1)) = (tr @ new1) @ new2" "\<not> list_ex P new2"
    using Cons.IH by blast
  show ?case
  proof (cases "f u tr")
    case (Pair e tr')
    with n1 have tr': "tr' = tr @ new1" by simp
    show ?thesis
    proof (cases e)
      case None
      with Pair tr' n1 n2 show ?thesis
        by (intro exI [of _ "new1 @ new2"]) simp
    next
      case (Some err)
      with Pair tr' n1 show ?thesis
        by (intro exI [of _ new1]) simp
    qed
  qed
qed

lemma revokeDatabaseRoleFromRole_trace:
  "\<exists>new. snd (revokeDatabaseRoleFromRole R database role1 role2 tr) = tr @ new \<and>
         \<not> list_ex is_grant new"
  by (auto simp: revokeDatabaseRoleFromRole_def Let_def split: option.splits error.splits)

lemma revokeDatabaseRoleFromUser_trace:
  "\<exists>new. snd (revokeDatabaseRoleFromUser env R database role1 user tr) = tr @ new \<and>
         \<not> list_ex is_grant new"
  by (auto simp: revokeDatabaseRoleFromUser_def Let_def split: option.splits error.splits)

lemma grantDatabaseRoleToRole_trace:
  "\<exists>new. snd (grantDatabaseRoleToRole R database role1 role2 tr) = tr @ new \<and>
         \<not> list_ex is_revoke new"
  by (simp add: grantDatabaseRoleToRole_def Let_def)

lemma grantDatabaseRoleToUser_trace:
  "\<exists>new. snd (grantDatabaseRoleToUser R database role1 user tr) = tr @ new \<and>
         \<not> list_ex is_revoke new"
  by (simp add: grantDatabaseRoleToUser_def Let_def)

lemma UpdateDatabaseRoleGrants_x_trace:
  assumes g: "\<And>u tr. \<exists>new. snd (grant u tr) = tr @ new \<and> \<not> list_ex is_revoke new"
    and r: "\<And>u tr. \<exists>new. snd (revoke u tr) = tr @ new \<and> \<not> list_ex is_grant new"
  shows "\<exists>new. snd (UpdateDatabaseRoleGrants_x grant revoke os ns tr) = tr @ new \<and>
           revokes_before_grants new"
proof -
  obtain new1 where n1: "snd (forEach revoke (Difference os ns) tr) = tr @ new1"
      "\<not> list_ex is_grant new1"
    using forEach_trace [of revoke is_grant, OF r] by blast
  obtain new2 where n2: "snd (forEach grant (Difference ns os) (tr @ new1)) = (tr @ new1) @ new2"
      "\<not> list_ex is_revoke new2"
    using forEach_trace [of grant is_revoke, OF g] by blast
  show ?thesis
  proof (cases "forEach revoke (Difference os ns) tr")
    case (Pair e tr1)
    with n1 have tr1: "tr1 = tr @ new1" by simp
    show ?thesis
    proof (cases e)
      case None
      with Pair tr1 n1 n2 show ?thesis
        by (intro exI [of _ "new1 @ new2"])
           (simp add: UpdateDatabaseRoleGrants_x_def revokes_before_grants_append)
    next
      case (Some err)
      with Pair tr1 n1 show ?thesis
        using revokes_before_grants_append [of new1 "[]"]
        by (intro exI [of _ new1]) (simp add: UpdateDatabaseRoleGrants_x_def)
    qed
  qed
qed

lemma grantAddedPrivileges_trace:
  "snd (grantAddedPrivileges R d roleID added tr) = tr \<or>
   (\<exists>p on. snd (grantAddedPrivileges R d roleID added tr) =
      tr @ [GrantPrivilegesToDatabaseRole p on roleID None])"
  by (auto simp: grantAddedPrivileges_def Let_def split: option.splits sum.splits)

lemma revokeRemovedPrivileges_trace:
  "snd (revokeRemovedPrivileges R d roleID removed tr) = tr \<or>
   (\<exists>p on. snd (revokeRemovedPrivileges R d roleID removed tr) =
      tr @ [RevokePrivilegesFromDatabaseRole p on roleID])"
  by (auto simp: revokeRemovedPrivileges_def Let_def split: option.splits sum.splits)

lemma ReadGrantPrivilegesToDatabaseRole_trace:
  "snd (ReadGrantPrivilegesToDatabaseRole env R d tr) = tr \<or>
   (\<exists>opts. snd (ReadGrantPrivilegesToDatabaseRole env R d tr) = tr @ [Show opts])"
  by (auto simp: ReadGrantPrivilegesToDatabaseRole_def readDatabaseRoleGrantPrivileges_def
      split: option.splits early.splits sum.splits prod.splits)

lemma UpdateGrantPrivilegesToDatabaseRole_trace:
  "\<exists>gs rs ss. snd (UpdateGrantPrivilegesToDatabaseRole env R d tr) = tr @ gs @ rs @ ss \<and>
     list_all is_grant gs \<and> list_all is_revoke rs \<and>
     \<not> list_ex is_grant ss \<and> \<not> list_ex is_revoke ss"
proof -
  let ?roleID = "NewDatabaseObjectIdentifier (database_name d) (role_name d)"
  let ?added = "addPrivileges (privileges_old d) (privileges d)"
  let ?removed = "removePrivileges (privileges_old d) (privileges d)"
  obtain g tr1 where g: "grantAddedPrivileges R d ?roleID ?added tr = (g, tr1)"
    by (cases "grantAddedPrivileges R d ?roleID ?added tr")
  obtain r tr2 where r: "revokeRemovedPrivileges R d ?roleID ?removed tr1 = (r, tr2)"
    by (cases "revokeRemovedPrivileges R d ?roleID ?removed tr1")
  obtain gs where gs: "tr1 = tr @ gs" "list_all is_grant gs"
    using grantAddedPrivileges_trace [of R d ?roleID ?added tr] g
    by (auto intro: that [of "[]"])
  obtain rs where rs: "tr2 = tr1 @ rs" "list_all is_revoke rs"
    using revokeRemovedPrivileges_trace [of R d ?roleID ?removed tr1] r
    by (auto intro: that [of "[]"])
  have rd: "\<exists>ss. snd (ReadGrantPrivilegesToDatabaseRole env R d' tr') = tr' @ ss \<and>
      \<not> list_ex is_grant ss \<and> \<not> list_ex is_revoke ss" for d' tr'
    using ReadGrantPrivilegesToDatabaseRole_trace [of env R d' tr'] by auto
  have fin: ?thesis
    if "snd (UpdateGrantPrivilegesToDatabaseRole env R d tr) = tr @ gs' @ rs' @ ss'"
      and "list_all is_grant gs'" and "list_all is_revoke rs'"
      and "\<not> list_ex is_grant ss'" and "\<not> list_ex is_revoke ss'" for gs' rs' ss'
    using that by blast
  show ?thesis
  proof (cases "HasChange_privileges d")
    case False
    obtain ss where ss: "snd (ReadGrantPrivilegesToDatabaseRole env R d tr) = tr @ ss"
      "\<not> list_ex is_grant ss" "\<not> list_ex is_revoke ss"
      using rd by blast
    with False show ?thesis
      by (intro fin [of "[]" "[]" ss]) (simp_all add: UpdateGrantPrivilegesToDatabaseRole_def)
  next
    case True
    show ?thesis
    proof (cases "g = Some None")
      case False
      with True g gs show ?thesis
        by (intro fin [of gs "[]" "[]"]; cases g; cases "the g")
           (simp_all add: UpdateGrantPrivilegesToDatabaseRole_def Let_def)
    next
      case gok: True
      show ?thesis
      proof (cases "r = Some None \<and> NewGrantPrivilegesToDatabaseRoleID (Id d) \<noteq> None")
        case False
        with True gok g r gs rs show ?thesis
          by (intro fin [of gs rs "[]"]; cases r; cases "the r")
             (auto simp: UpdateGrantPrivilegesToDatabaseRole_def Let_def)
      next
        case rok: True
        then obtain resourceID where
          dec: "NewGrantPrivilegesToDatabaseRoleID (Id d) = Some resourceID"
          by blast
        obtain ss where ss: "snd (ReadGrantPrivilegesToDatabaseRole env R
            (d\<lparr>Id := String (resourceID\<lparr>Privileges := privileges d\<rparr>)\<rparr>) tr2) = tr2 @ ss"
          "\<not> list_ex is_grant ss" "\<not> list_ex is_revoke ss"
          using rd by blast
        with True gok rok g r gs rs dec show ?thesis
          by (intro fin [of gs rs ss])
             (simp_all add: UpdateGrantPrivilegesToDatabaseRole_def Let_def)
      qed
    qed
  qed
qed

lemma grant_not_revoke: "is_grant c \<Longrightarrow> \<not> is_revoke c"
proof (cases c)
  case (Exec sql)
  have "take 6 sql = take 6 (take 7 sql)" by simp
  then show "is_grant c \<Longrightarrow> \<not> is_revoke c"
    using Exec by (auto simp del: take_take)
qed simp_all

lemma list_all_grant_no_revoke: "list_all is_grant cs \<Longrightarrow> \<not> list_ex is_revoke cs"
  using grant_not_revoke by (auto simp: list_all_iff list_ex_iff)

lemma list_all_revoke_no_grant: "list_all is_revoke cs \<Longrightarrow> \<not> list_ex is_grant cs"
  using grant_not_revoke by (auto simp: list_all_iff list_ex_iff)

lemma UpdateGrantPrivilegesToDatabaseRole_order:
  "\<exists>new. snd (UpdateGrantPrivilegesToDatabaseRole env R d tr) = tr @ new \<and>
         grants_before_revokes new"
proof -
  obtain gs rs ss where t: "snd (UpdateGrantPrivilegesToDatabaseRole env R d tr) = tr @ gs @ rs @ ss"
      "list_all is_grant gs" "list_all is_revoke rs"
      "\<not> list_ex is_grant ss" "\<not> list_ex is_revoke ss"
    using UpdateGrantPrivilegesToDatabaseRole_trace by blast
  have "\<not> list_ex is_grant (rs @ ss)"
    using t list_all_revoke_no_grant by simp
  then have "grants_before_revokes (gs @ rs @ ss)"
    using grants_before_revokes_append [of gs "rs @ ss"] list_all_grant_no_revoke t(2) by blast
  with t(1) show ?thesis by blast
qed

lemma UpdateGrantPrivilegesToDatabaseRole_prefix:
  assumes "addPrivileges (privileges_old d) (privileges d) \<noteq> []"
    and "removePrivileges (privileges_old d) (privileges d) \<noteq> []"
    and "configureDatabaseRoleGrantPrivilegeOptions d
           (addPrivileges (privileges_old d) (privileges d)) False emptyID = Some (Inr (pg, ong, ig))"
    and "configureDatabaseRoleGrantPrivilegeOptions d
           (removePrivileges (privileges_old d) (privileges d)) False emptyID = Some (Inr (pr, onr, ir))"
    and "status_of R tr (GrantPrivilegesToDatabaseRole pg ong
           (NewDatabaseObjectIdentifier (database_name d) (role_name d)) None) = None"
  shows "take 2 (drop (length tr) (snd (UpdateGrantPrivilegesToDatabaseRole env R d tr))) =
     [GrantPrivilegesToDatabaseRole pg ong
        (NewDatabaseObjectIdentifier (database_name d) (role_name d)) None,
      RevokePrivilegesFromDatabaseRole pr onr
        (NewDatabaseObjectIdentifier (database_name d) (role_name d))]"
proof -
  let ?roleID = "NewDatabaseObjectIdentifier (database_name d) (role_name d)"
  let ?g = "GrantPrivilegesToDatabaseRole pg ong ?roleID None"
  let ?r = "RevokePrivilegesFromDatabaseRole pr onr ?roleID"
  have ch: "HasChange_privileges d"
    using assms(1)
    by (auto simp: HasChange_privileges_def addPrivileges_def slices_Contains_def filter_empty_conv)
  have g: "grantAddedPrivileges R d ?roleID (addPrivileges (privileges_old d) (privileges d)) tr =
      (Some None, tr @ [?g])"
    using assms by (simp add: grantAddedPrivileges_def Let_def)
  have r: "revokeRemovedPrivileges R d ?roleID (removePrivileges (privileges_old d) (privileges d))
      (tr @ [?g]) =
      (Some (map_option (Errorf ''error revoking privileges from database role'')
         (status_of R (tr @ [?g]) ?r)), tr @ [?g] @ [?r])"
    using assms by (simp add: revokeRemovedPrivileges_def Let_def)
  have rd: "\<exists>ss. snd (ReadGrantPrivilegesToDatabaseRole env R d' tr') = tr' @ ss" for d' tr'
    using ReadGrantPrivilegesToDatabaseRole_trace [of env R d' tr'] by auto
  have "\<exists>ss. snd (UpdateGrantPrivilegesToDatabaseRole env R d tr) = tr @ [?g, ?r] @ ss"
  proof (cases "status_of R (tr @ [?g]) ?r")
    case (Some err)
    with ch g r show ?thesis
      by (simp add: UpdateGrantPrivilegesToDatabaseRole_def Let_def)
  next
    case None
    show ?thesis
    proof (cases "NewGrantPrivilegesToDatabaseRoleID (Id d)")
      case dn: None
      with None ch g r show ?thesis
        by (simp add: UpdateGrantPrivilegesToDatabaseRole_def Let_def)
    next
      case (Some resourceID)
      obtain ss where "snd (ReadGrantPrivilegesToDatabaseRole env R
            (d\<lparr>Id := String (resourceID\<lparr>Privileges := privileges d\<rparr>)\<rparr>) (tr @ [?g] @ [?r])) =
          (tr @ [?g] @ [?r]) @ ss"
        using rd by blast
      with Some None ch g r show ?thesis
        by (simp add: UpdateGrantPrivilegesToDatabaseRole_def Let_def)
    qed
  qed
  then show ?thesis by auto
qed

lemma grant_revoke_prefix_not_revokes_before_grants:
  "take 2 new = [g, r] \<Longrightarrow> is_grant g \<Longrightarrow> is_revoke r \<Longrightarrow> \<not> revokes_before_grants new"
  by (cases new; cases "tl new") auto

text \<open>
  Claim C3, as it is stated, fails on \<open>UpdateGrantPrivilegesToDatabaseRole\<close>:
  when \<open>MONITOR USAGE\<close> is replaced by \<open>MANAGE GRANTS\<close>, both sets of the
  delta are not empty and the grant statement is issued first, the revoke statement
  after it. And in \<open>UpdateDatabaseRoleGrants\<close> the grant to the new user is
  issued before the revoke from the old role.
\<close>

theorem C3_as_stated_counterexample:
  "addPrivileges (privileges_old dSwap) (privileges dSwap) = [''MANAGE GRANTS''] \<and>
   removePrivileges (privileges_old dSwap) (privileges dSwap) = [''MONITOR USAGE''] \<and>
   \<not> revokes_before_grants
       (snd (UpdateGrantPrivilegesToDatabaseRole someEnvironment quietRemote dSwap [])) \<and>
   \<not> revokes_before_grants
       (snd (UpdateDatabaseRoleGrants_changes someEnvironment quietRemote ''DB1'' ''R1''
              [''USER1''] [''USER2''] [''ROLE1''] [''ROLE2''] []))"
proof -
  have a: "addPrivileges (privileges_old dSwap) (privileges dSwap) = [''MANAGE GRANTS'']"
    and r: "removePrivileges (privileges_old dSwap) (privileges dSwap) = [''MONITOR USAGE'']"
    by (simp_all add: dSwap_def dOnDatabase_def addPrivileges_def removePrivileges_def
        slices_Contains_def)
  have on: "on_database dSwap"
    by (simp add: dSwap_def dOnDatabase_def)
  have "take 2 (drop (length []) (snd (UpdateGrantPrivilegesToDatabaseRole someEnvironment
      quietRemote dSwap []))) =
      [GrantPrivilegesToDatabaseRole
         (setDatabaseRolePrivilegeOptions [''MANAGE GRANTS''] False True False False)
         (emptyDatabaseRoleGrantOn\<lparr>on_Database :=
            Some (NewAccountObjectIdentifierFromFullyQualifiedName (DatabaseName emptyID))\<rparr>)
         (NewDatabaseObjectIdentifier (database_name dSwap) (role_name dSwap)) None,
       RevokePrivilegesFromDatabaseRole
         (setDatabaseRolePrivilegeOptions [''MONITOR USAGE''] False True False False)
         (emptyDatabaseRoleGrantOn\<lparr>on_Database :=
            Some (NewAccountObjectIdentifierFromFullyQualifiedName (DatabaseName emptyID))\<rparr>)
         (NewDatabaseObjectIdentifier (database_name dSwap) (role_name dSwap))]"
    using UpdateGrantPrivilegesToDatabaseRole_prefix [where d = dSwap and tr = "[]"
        and R = quietRemote and env = someEnvironment
        and pg = "setDatabaseRolePrivilegeOptions [''MANAGE GRANTS''] False True False False"
        and pr = "setDatabaseRolePrivilegeOptions [''MONITOR USAGE''] False True False False"
        and ong = "emptyDatabaseRoleGrantOn\<lparr>on_Database :=
            Some (NewAccountObjectIdentifierFromFullyQualifiedName (DatabaseName emptyID))\<rparr>"
        and onr = "emptyDatabaseRoleGrantOn\<lparr>on_Database :=
            Some (NewAccountObjectIdentifierFromFullyQualifiedName (DatabaseName emptyID))\<rparr>"
        and ig = "emptyID\<lparr>OnDatabase := True\<rparr>" and ir = "emptyID\<lparr>OnDatabase := True\<rparr>"]
    by (simp add: a r on configureDatabaseRoleGrantPrivilegeOptions_def quietRemote_def)
  then have u: "\<not> revokes_before_grants
      (snd (UpdateGrantPrivilegesToDatabaseRole someEnvironment quietRemote dSwap []))"
    using grant_revoke_prefix_not_revokes_before_grants by fastforce
  have c: "\<not> revokes_before_grants
      (snd (UpdateDatabaseRoleGrants_changes someEnvironment quietRemote ''DB1'' ''R1''
             [''USER1''] [''USER2''] [''ROLE1''] [''ROLE2''] []))"
    by (simp add: UpdateDatabaseRoleGrants_changes_def UpdateDatabaseRoleGrants_x_def
        Difference_def grantDatabaseRoleToUser_def grantDatabaseRoleToRole_def
        revokeDatabaseRoleFromUser_def revokeDatabaseRoleFromRole_def quietRemote_def)
  from a r u c show ?thesis by simp
qed

text \<open>
  Claim C3, as the code has it. In every update of the privileges the grant
  statement comes before the revoke statement: no revoke statement of the update
  has a grant statement after it, and when both sets of the delta are not empty,
  the target resolves and the grant succeeds, the update issues exactly the grant
  of the added privileges and then the revoke of the removed ones. In the update
  of the grants of a database role, for each of the attributes \<open>users\<close> and
  \<open>roles\<close>, every revoke statement of the attribute is issued before any of
  its grant statements.
\<close>

theorem C3_statement_order:
  "(\<exists>new. snd (UpdateGrantPrivilegesToDatabaseRole env R d tr) = tr @ new \<and>
          grants_before_revokes new) \<and>
   (addPrivileges (privileges_old d) (privileges d) \<noteq> [] \<and>
    removePrivileges (privileges_old d) (privileges d) \<noteq> [] \<and>
    configureDatabaseRoleGrantPrivilegeOptions d
      (addPrivileges (privileges_old d) (privileges d)) False emptyID = Some (Inr (pg, ong, ig)) \<and>
    configureDatabaseRoleGrantPrivilegeOptions d
      (removePrivileges (privileges_old d) (privileges d)) False emptyID = Some (Inr (pr, onr, ir)) \<and>
    status_of R tr (GrantPrivilegesToDatabaseRole pg ong
      (NewDatabaseObjectIdentifier (database_name d) (role_name d)) None) = None \<longrightarrow>
      take 2 (drop (length tr) (snd (UpdateGrantPrivilegesToDatabaseRole env R d tr))) =
        [GrantPrivilegesToDatabaseRole pg ong
           (NewDatabaseObjectIdentifier (database_name d) (role_name d)) None,
         RevokePrivilegesFromDatabaseRole pr onr
           (NewDatabaseObjectIdentifier (database_name d) (role_name d))]) \<and>
   (\<exists>new. snd (UpdateDatabaseRoleGrants_x (grantDatabaseRoleToUser R database role)
                 (revokeDatabaseRoleFromUser env R database role) os ns tr) = tr @ new \<and>
          revokes_before_grants new) \<and>
   (\<exists>new. snd (UpdateDatabaseRoleGrants_x (grantDatabaseRoleToRole R database role)
                 (revokeDatabaseRoleFromRole R database role) os ns tr) = tr @ new \<and>
          revokes_before_grants new)"
  using UpdateGrantPrivilegesToDatabaseRole_order [of env R d tr]
    UpdateGrantPrivilegesToDatabaseRole_prefix [of d pg ong ig pr onr ir R tr env]
    UpdateDatabaseRoleGrants_x_trace [of "grantDatabaseRoleToUser R database role"
      "revokeDatabaseRoleFromUser env R database role" os ns tr,
      OF grantDatabaseRoleToUser_trace revokeDatabaseRoleFromUser_trace]
    UpdateDatabaseRoleGrants_x_trace [of "grantDatabaseRoleToRole R database role"
      "revokeDatabaseRoleFromRole R database role" os ns tr,
      OF grantDatabaseRoleToRole_trace revokeDatabaseRoleFromRole_trace]
  by blast


theorem C3_statement_order_witness:
  "addPrivileges (privileges_old dSwap) (privileges dSwap) \<noteq> [] \<and>
   removePrivileges (privileges_old dSwap) (privileges dSwap) \<noteq> [] \<and>
   status_of quietRemote []
     (GrantPrivilegesToDatabaseRole
        (setDatabaseRolePrivilegeOptions [''MANAGE GRANTS''] False True False False)
        (emptyDatabaseRoleGrantOn\<lparr>on_Database :=
           Some (NewAccountObjectIdentifierFromFullyQualifiedName [])\<rparr>)
        (NewDatabaseObjectIdentifier ''DB1'' ''R1'') None) = None \<and>
   take 2 (snd (UpdateGrantPrivilegesToDatabaseRole someEnvironment quietRemote dSwap [])) =
     [GrantPrivilegesToDatabaseRole
        (setDatabaseRolePrivilegeOptions [''MANAGE GRANTS''] False True False False)
        (emptyDatabaseRoleGrantOn\<lparr>on_Database :=
           Some (NewAccountObjectIdentifierFromFullyQualifiedName [])\<rparr>)
        (NewDatabaseObjectIdentifier ''DB1'' ''R1'') None,
      RevokePrivilegesFromDatabaseRole
        (setDatabaseRolePrivilegeOptions [''MONITOR USAGE''] False True False False)
        (emptyDatabaseRoleGrantOn\<lparr>on_Database :=
           Some (NewAccountObjectIdentifierFromFullyQualifiedName [])\<rparr>)
        (NewDatabaseObjectIdentifier ''DB1'' ''R1'')] \<and>
   grants_before_revokes
     (snd (UpdateGrantPrivilegesToDatabaseRole someEnvironment quietRemote dSwap []))"
proof -
  have a: "addPrivileges (privileges_old dSwap) (privileges dSwap) = [''MANAGE GRANTS'']"
    and r: "removePrivileges (privileges_old dSwap) (privileges dSwap) = [''MONITOR USAGE'']"
    by (simp_all add: dSwap_def dOnDatabase_def addPrivileges_def removePrivileges_def
        slices_Contains_def)
  have d: "on_database dSwap" "database_name dSwap = ''DB1''" "role_name dSwap = ''R1''"
    by (simp_all add: dSwap_def dOnDatabase_def)
  show ?thesis
    using C3_statement_order [where d = dSwap and tr = "[]"
        and R = quietRemote and env = someEnvironment
        and pg = "setDatabaseRolePrivilegeOptions [''MANAGE GRANTS''] False True False False"
        and pr = "setDatabaseRolePrivilegeOptions [''MONITOR USAGE''] False True False False"
        and ong = "emptyDatabaseRoleGrantOn\<lparr>on_Database :=
            Some (NewAccountObjectIdentifierFromFullyQualifiedName [])\<rparr>"
        and onr = "emptyDatabaseRoleGrantOn\<lparr>on_Database :=
            Some (NewAccountObjectIdentifierFromFullyQualifiedName [])\<rparr>"
        and ig = "emptyID\<lparr>OnDatabase := True\<rparr>" and ir = "emptyID\<lparr>OnDatabase := True\<rparr>"]
    by (auto simp: a r d configureDatabaseRoleGrantPrivilegeOptions_def quietRemote_def
        emptyID_def)
qed

section \<open>Properties of target resolution\<close>

lemma typed_string_at:
  "typed_string m k \<Longrightarrow> \<exists>r. nonempty_string_at m k = Some r"
  by (auto simp: typed_string_def nonempty_string_at_def split: option.splits)

lemma typed_bool_at: "typed_bool m k \<Longrightarrow> \<exists>b. true_at m k = Some b"
  by (auto simp: typed_bool_def true_at_def split: option.splits)

lemma configureOnSchema_target:
  "configureOnSchema v0 privs a rid = Some (p, on, i) \<Longrightarrow>
   on_Database on = None \<and> on_Schema on \<noteq> None \<and> on_SchemaObject on = None"
  by (auto simp: configureOnSchema_def Let_def emptyDatabaseRoleGrantOn_def
      split: bind_splits prod.splits option.splits if_splits)

lemma configureOnSchema_total:
  assumes "well_typed_on_schema v0"
  shows "configureOnSchema v0 privs a rid \<noteq> None"
proof -
  from assms obtain m where m: "as_map v0 = Some m" "typed_string m ''schema_name''"
      "typed_bool m ''all_schemas''" "typed_bool m ''future_schemas''"
    by (auto simp: well_typed_on_schema_def split: option.splits)
  obtain n b1 b2 where "nonempty_string_at m ''schema_name'' = Some n"
      "true_at m ''all_schemas'' = Some b1" "true_at m ''future_schemas'' = Some b2"
    using m typed_string_at typed_bool_at by blast
  with m show ?thesis
    by (simp add: configureOnSchema_def Let_def split: prod.splits option.splits)
qed

lemma configureIn_total:
  assumes "well_typed_in v"
  shows "\<exists>m. as_map v = Some m \<and> (\<forall>rid. configureIn m rid \<noteq> None)"
proof -
  from assms obtain m p where m: "as_map v = Some m" "map_of m ''object_type_plural'' = Some p"
      "as_string p \<noteq> None" "typed_bool m ''in_database''" "typed_string m ''in_schema''"
    by (auto simp: well_typed_in_def split: option.splits)
  obtain s b n where "as_string p = Some s" "true_at m ''in_database'' = Some b"
      "nonempty_string_at m ''in_schema'' = Some n"
    using m typed_string_at typed_bool_at by blast
  with m show ?thesis
    by (simp add: configureIn_def Let_def split: prod.splits option.splits)
qed

lemma typed_block_at:
  assumes "typed_block m k"
  shows "nonempty_list_at m k = Some None \<or>
         (\<exists>vs. nonempty_list_at m k = Some (Some vs) \<and> well_typed_in (vs ! 0))"
  using assms
  by (auto simp: typed_block_def nonempty_list_at_def split: option.splits list.splits)

lemma configureOnSchemaObject_target:
  "configureOnSchemaObject v0 privs a rid = Some (p, on, i) \<Longrightarrow>
   on_Database on = None \<and> on_Schema on = None \<and> on_SchemaObject on \<noteq> None"
  by (auto simp: configureOnSchemaObject_def Let_def emptyDatabaseRoleGrantOn_def
      split: bind_splits prod.splits option.splits if_splits)

lemma configureOnSchemaObject_total:
  assumes "well_typed_on_schema_object v0"
  shows "configureOnSchemaObject v0 privs a rid \<noteq> None"
proof -
  from assms obtain m where m: "as_map v0 = Some m"
      and ts: "typed_string m ''object_type''" "typed_string m ''object_name''"
      and req: "nonempty_string_at m ''object_type'' = Some None \<longrightarrow>
                nonempty_string_at m ''object_name'' = Some None"
      and tb: "typed_block m ''all''" "typed_block m ''future''"
    by (auto simp: well_typed_on_schema_object_def split: option.splits)
  obtain ot on' where s: "nonempty_string_at m ''object_type'' = Some ot"
      "nonempty_string_at m ''object_name'' = Some on'"
    using ts typed_string_at by blast
  have blk: "b = None \<or> (\<exists>vs m'. b = Some vs \<and> as_map (vs ! 0) = Some m' \<and>
      (\<forall>r. configureIn m' r \<noteq> None))"
    if "b = None \<or> (\<exists>vs. b = Some vs \<and> well_typed_in (vs ! 0))"
    for b :: "tfvalue list option"
    using that configureIn_total by blast
  obtain al where al: "nonempty_list_at m ''all'' = Some al"
      "al = None \<or> (\<exists>vs m'. al = Some vs \<and> as_map (vs ! 0) = Some m' \<and>
         (\<forall>r. configureIn m' r \<noteq> None))"
    using typed_block_at [OF tb(1)] blk by metis
  obtain fu where fu: "nonempty_list_at m ''future'' = Some fu"
      "fu = None \<or> (\<exists>vs m'. fu = Some vs \<and> as_map (vs ! 0) = Some m' \<and>
         (\<forall>r. configureIn m' r \<noteq> None))"
    using typed_block_at [OF tb(2)] blk by metis
  from req s have "ot = None \<longrightarrow> on' = None" by simp
  with m s al fu show ?thesis
    by (cases ot; cases on';
        auto simp: configureOnSchemaObject_def Let_def emptyGrantOnSchemaObject_def
          split: bind_splits prod.splits;
        metis option.distinct(1))
qed

lemma configure_resolves:
  assumes wt: "well_typed d" and pop: "1 \<le> populated_branches d"
  shows "\<exists>p on i. configureDatabaseRoleGrantPrivilegeOptions d privs a rid = Some (Inr (p, on, i)) \<and>
           targets on = 1 \<and>
           (on_Database on \<noteq> None) = on_database d \<and>
           (on_Schema on \<noteq> None) = (\<not> on_database d \<and> on_schema d \<noteq> []) \<and>
           (on_SchemaObject on \<noteq> None) = (\<not> on_database d \<and> on_schema d = [])"
proof (cases "on_database d")
  case True
  then show ?thesis
    by (simp add: configureDatabaseRoleGrantPrivilegeOptions_def targets_def
        emptyDatabaseRoleGrantOn_def)
next
  case db: False
  show ?thesis
  proof (cases "on_schema d = []")
    case False
    with wt have "well_typed_on_schema (on_schema d ! 0)"
      by (simp add: well_typed_def)
    then obtain p on i where
      c: "configureOnSchema (on_schema d ! 0) privs a rid = Some (p, on, i)"
      using configureOnSchema_total [of "on_schema d ! 0" privs a rid] by (metis not_Some_eq prod_cases3)
    with db False configureOnSchema_target [OF c] show ?thesis
      by (auto simp: configureDatabaseRoleGrantPrivilegeOptions_def targets_def)
  next
    case True
    with db pop have ne: "on_schema_object d \<noteq> []"
      by (simp add: populated_branches_def split: if_splits)
    with wt have "well_typed_on_schema_object (on_schema_object d ! 0)"
      by (simp add: well_typed_def)
    then obtain p on i where
      c: "configureOnSchemaObject (on_schema_object d ! 0) privs a rid = Some (p, on, i)"
      using configureOnSchemaObject_total [of "on_schema_object d ! 0" privs a rid]
      by (metis not_Some_eq prod_cases3)
    with db True ne configureOnSchemaObject_target [OF c] show ?thesis
      by (auto simp: configureDatabaseRoleGrantPrivilegeOptions_def targets_def)
  qed
qed

lemma configure_none_populated:
  assumes "populated_branches d = 0"
  shows "configureDatabaseRoleGrantPrivilegeOptions d privs a rid =
     Some (Inl (OtherError ''invalid grant options''))"
  using assms
  by (simp add: configureDatabaseRoleGrantPrivilegeOptions_def populated_branches_def
      split: if_splits)

lemma Update_none_populated:
  assumes "populated_branches d = 0" and ch: "HasChange_privileges d"
  shows "UpdateGrantPrivilegesToDatabaseRole env R d tr =
     (Some (Some (Errorf ''error configuring database role grant privilege options''
                    (OtherError ''invalid grant options'')), d), tr)"
proof -
  have "addPrivileges (privileges_old d) (privileges d) \<noteq> [] \<or>
      removePrivileges (privileges_old d) (privileges d) \<noteq> []"
    using ch
    by (auto simp: HasChange_privileges_def addPrivileges_def removePrivileges_def
        slices_Contains_def filter_empty_conv)
  then show ?thesis
    using ch configure_none_populated [OF assms(1)]
    by (auto simp: UpdateGrantPrivilegesToDatabaseRole_def grantAddedPrivileges_def
        revokeRemovedPrivileges_def Let_def)
qed

text \<open>
  Target resolution on blocks that are not empty and hold values of the declared
  types. It produces exactly one grant target whenever at least one top-level
  branch is populated: the database when \<open>on_database\<close> is true, else the schema
  when \<open>on_schema\<close> is populated, else the schema object. When no branch is
  populated it fails with the error "invalid grant options", and create, delete
  and an update that has a change then return that error without any remote call.
\<close>

lemma target_resolution_typed:
  "(well_typed d \<and> 1 \<le> populated_branches d \<longrightarrow>
      (\<exists>p on i. configureDatabaseRoleGrantPrivilegeOptions d privs a rid = Some (Inr (p, on, i)) \<and>
         targets on = 1 \<and>
         (on_Database on \<noteq> None) = on_database d \<and>
         (on_Schema on \<noteq> None) = (\<not> on_database d \<and> on_schema d \<noteq> []) \<and>
         (on_SchemaObject on \<noteq> None) = (\<not> on_database d \<and> on_schema d = []))) \<and>
   (populated_branches d = 0 \<longrightarrow>
      configureDatabaseRoleGrantPrivilegeOptions d privs a rid =
        Some (Inl (OtherError ''invalid grant options'')) \<and>
      CreateGrantPrivilegesToDatabaseRole env R d tr =
        (Some (Some (Errorf ''error configuring database role grant privilege options''
                       (OtherError ''invalid grant options'')), d), tr) \<and>
      DeleteGrantPrivilegesToDatabaseRole R d tr =
        (Some (Some (Errorf ''error configuring database role grant privilege options''
                       (OtherError ''invalid grant options'')), d), tr) \<and>
      (HasChange_privileges d \<longrightarrow>
         UpdateGrantPrivilegesToDatabaseRole env R d tr =
           (Some (Some (Errorf ''error configuring database role grant privilege options''
                          (OtherError ''invalid grant options'')), d), tr)))"
  using configure_resolves [of d privs a rid] configure_none_populated [of d]
    Update_none_populated [of d env R tr]
  by (simp add: CreateGrantPrivilegesToDatabaseRole_def DeleteGrantPrivilegesToDatabaseRole_def
      Let_def)

lemma target_resolution_typed_example:
  "well_typed dAllTablesInDatabase \<and> populated_branches dAllTablesInDatabase = 1 \<and>
   (\<exists>p on i. configureDatabaseRoleGrantPrivilegeOptions dAllTablesInDatabase [''SELECT''] False
                emptyID = Some (Inr (p, on, i)) \<and>
      on_Database on = None \<and> on_Schema on = None \<and> on_SchemaObject on \<noteq> None) \<and>
   populated_branches dNoObject = 0 \<and>
   HasChange_privileges (dNoObject\<lparr>privileges := [''INSERT'']\<rparr>) \<and>
   CreateGrantPrivilegesToDatabaseRole someEnvironment quietRemote dNoObject [] =
     (Some (Some (Errorf ''error configuring database role grant privilege options''
                    (OtherError ''invalid grant options'')), dNoObject), []) \<and>
   snd (UpdateGrantPrivilegesToDatabaseRole someEnvironment quietRemote
          (dNoObject\<lparr>privileges := [''INSERT'']\<rparr>) []) = []"
proof -
  have w: "well_typed dAllTablesInDatabase"
    by (simp add: well_typed_def well_typed_on_schema_object_def dAllTablesInDatabase_def
        typed_string_def typed_bool_def typed_block_def well_typed_in_def nonempty_string_at_def)
  have p: "populated_branches dAllTablesInDatabase = 1"
    by (simp add: populated_branches_def dAllTablesInDatabase_def)
  have d: "\<not> on_database dAllTablesInDatabase" "on_schema dAllTablesInDatabase = []"
    by (simp_all add: dAllTablesInDatabase_def)
  have z: "populated_branches dNoObject = 0"
    "populated_branches (dNoObject\<lparr>privileges := [''INSERT'']\<rparr>) = 0"
    by (simp_all add: populated_branches_def dNoObject_def)
  have h: "HasChange_privileges (dNoObject\<lparr>privileges := [''INSERT'']\<rparr>)"
    by (simp add: HasChange_privileges_def dNoObject_def)
  show ?thesis
    using target_resolution_typed [of dAllTablesInDatabase "[''SELECT'']" False emptyID
        someEnvironment quietRemote "[]"]
      target_resolution_typed [of dNoObject "[]" False emptyID someEnvironment quietRemote "[]"]
      target_resolution_typed [of "dNoObject\<lparr>privileges := [''INSERT'']\<rparr>" "[]" False emptyID
        someEnvironment quietRemote "[]"]
      w p d z h
    by auto
qed

text \<open>
  Claim C9. The claim: with exactly one top-level target branch populated, target
  resolution produces exactly one grant target. For the block \<open>on_schema {}\<close>,
  and for the block \<open>on_schema_object {}\<close>, exactly one branch is populated and
  target resolution neither produces a target nor returns an error: the type
  assertion on the \<open>nil\<close> element of the list panics, whatever the privileges
  and the identifier are, and so does the creation of the resource, before any
  remote call.
\<close>

theorem C9_empty_block_panics:
  "populated_branches dEmptySchemaBlock = 1 \<and>
   (\<forall>privs allPrivileges resourceID.
      configureDatabaseRoleGrantPrivilegeOptions dEmptySchemaBlock privs allPrivileges resourceID =
        None) \<and>
   (\<forall>env R tr.
      CreateGrantPrivilegesToDatabaseRole env R dEmptySchemaBlock tr = (None, tr)) \<and>
   populated_branches dEmptySchemaObjectBlock = 1 \<and>
   (\<forall>privs allPrivileges resourceID.
      configureDatabaseRoleGrantPrivilegeOptions dEmptySchemaObjectBlock privs allPrivileges
        resourceID = None) \<and>
   (\<forall>env R tr.
      CreateGrantPrivilegesToDatabaseRole env R dEmptySchemaObjectBlock tr = (None, tr))"
proof -
  have s: "configureDatabaseRoleGrantPrivilegeOptions dEmptySchemaBlock privs a rid = None"
    for privs a rid
    by (simp add: configureDatabaseRoleGrantPrivilegeOptions_def configureOnSchema_def
        dEmptySchemaBlock_def)
  have so: "configureDatabaseRoleGrantPrivilegeOptions dEmptySchemaObjectBlock privs a rid = None"
    for privs a rid
    by (simp add: configureDatabaseRoleGrantPrivilegeOptions_def configureOnSchemaObject_def
        dEmptySchemaObjectBlock_def)
  have p: "populated_branches dEmptySchemaBlock = 1"
    "populated_branches dEmptySchemaObjectBlock = 1"
    by (simp_all add: populated_branches_def dEmptySchemaBlock_def dEmptySchemaObjectBlock_def)
  show ?thesis
    using s so p by (simp add: CreateGrantPrivilegesToDatabaseRole_def Let_def)
qed

end
